theory Spec2Isabelle
  imports Main "HOL-Library.Sublist"
begin

section \<open>Errors and phase errors (controllers/phases.go)\<close>

text \<open>
  Go's \<open>error\<close> values that the reconciler produces, receives or compares:
  \<^item> \<open>ErrWaitTimeout\<close> is the sentinel \<open>wait.ErrWaitTimeout\<close>, compared with \<open>==\<close>;
  \<^item> \<open>ErrorString m\<close> is an error built by \<open>fmt.Errorf\<close>, \<open>errors.Errorf\<close> or a
    collaborator, with its message \<open>m\<close>;
  \<^item> \<open>StatusError r m\<close> is an API status error with reason \<open>r\<close>, as the cluster client
    returns;
  \<^item> \<open>Wrapf e f args\<close> is \<open>errors.Wrapf(e, f, args...)\<close>, kept as cause, format and
    arguments;
  \<^item> \<open>PhaseError\<close> is the struct of that name; its fields are the selectors.
  A \<open>nil\<close> error is \<open>None\<close> of \<open>error option\<close>.
\<close>

type_synonym ConditionType = string

datatype ConditionSeverity =
  ConditionSeverityError | ConditionSeverityWarning | ConditionSeverityInfo

datatype error =
    ErrWaitTimeout
  | ErrorString string
  | StatusError string string
  | Wrapf error string "string list"
  | PhaseError (Reason: string) (Type: ConditionType) (Severity: ConditionSeverity) (Err: error)

definition wrapPhaseError :: "error option \<Rightarrow> string \<Rightarrow> ConditionType \<Rightarrow> error option" where
  "wrapPhaseError err reason ctype =
     (case err of
        None \<Rightarrow> None
      | Some e \<Rightarrow> Some (PhaseError reason ctype ConditionSeverityWarning e))"

text \<open>
  A phase either returns to its caller or dereferences a \<open>nil\<close> field of the reconciler
  (\<open>repo\<close> and \<open>components\<close> are \<open>nil\<close> until \<open>load\<close> and \<open>fetch\<close> have set them), which
  panics.
\<close>

datatype 'a outcome = Return 'a | Panic

section \<open>Providers and the reconciler's state\<close>

text \<open>
  The concrete Go type behind \<open>GenericProvider.GetObject()\<close>, on which
  \<open>clusterctlProviderName\<close> switches.
\<close>

datatype ProviderKind =
  CoreProvider | BootstrapProvider | ControlPlaneProvider | InfrastructureProvider

record ObjectReference =
  ref_Namespace :: string
  ref_Name :: string

text \<open>
  \<open>operatorv1.ProviderSpec\<close> as \<open>phases.go\<close> reads it: pointer fields are options.
\<close>

record FetchConfiguration =
  URL :: "string option"
  ConfigMap :: "ObjectReference option"

record ProviderSpec =
  Version :: "string option"
  SecretName :: "string option"
  FetchConfig :: "FetchConfiguration option"

record ProviderStatus =
  Contract :: "string option"
  ObservedGeneration :: int
  Conditions :: "ConditionType \<rightharpoonup> bool"

record GenericProvider =
  Kind :: ProviderKind
  Name :: string
  Namespace :: string
  Generation :: int
  Spec :: ProviderSpec
  Status :: ProviderStatus

text \<open>\<open>clusterctlv1.Provider\<close>, the persisted record of what is installed.\<close>

record ClusterctlProvider =
  cp_Name :: string
  cp_Namespace :: string
  cp_Type :: string
  cp_ProviderName :: string
  cp_Version :: string

record ObjectKey =
  key_Namespace :: string
  key_Name :: string

record ComponentsOptions =
  TargetNamespace :: string
  SkipTemplateProcess :: bool
  opt_Version :: string

text \<open>
  \<open>repository.Repository\<close> is an interface; a value of it is the record of what its
  methods return. \<open>repository.Components\<close> likewise, with the one method the phases call.
\<close>

record Repository =
  DefaultVersion :: string
  ComponentsPath :: string
  GetFile :: "string \<Rightarrow> string \<Rightarrow> error + string"

record Components =
  comp_Version :: string
  comp_Objs :: "string list"

record DeleteOptions =
  del_Provider :: ClusterctlProvider
  IncludeNamespace :: bool
  IncludeCRDs :: bool

text \<open>
  The calls the reconciler issues to its collaborators, in the order it issues them:
  repository reads and the cluster client's installer and deleter. The reconciler below
  has the fields of the struct \<open>phaseReconciler\<close> that the phases read or write, and the
  list \<open>calls\<close> of the calls issued so far; the cluster client and its configuration
  are the environment, not fields.
\<close>

datatype call =
    CallGetFile string string
  | CallEnsureCustomResourceDefinitions
  | CallInstall "Components option"
  | CallDelete DeleteOptions

record ('c, 'p) phaseReconciler =
  provider :: GenericProvider
  repo :: "Repository option"
  contract :: string
  options :: ComponentsOptions
  providerConfig :: "'p option"
  configClient :: "'c option"
  components :: "Components option"
  clusterctlProvider :: ClusterctlProvider
  calls :: "call list"

text \<open>
  \<open>newReconcilePhases\<close>: a fresh reconciler for a provider. Its record of the installed
  provider is empty, every other field has Go's zero value.
\<close>

definition newReconcilePhases :: "GenericProvider \<Rightarrow> ('c, 'p) phaseReconciler" where
  "newReconcilePhases prov =
     \<lparr>provider = prov, repo = None, contract = [],
      options = \<lparr>TargetNamespace = [], SkipTemplateProcess = False, opt_Version = []\<rparr>,
      providerConfig = None, configClient = None, components = None,
      clusterctlProvider =
        \<lparr>cp_Name = [], cp_Namespace = [], cp_Type = [], cp_ProviderName = [], cp_Version = []\<rparr>,
      calls = []\<rparr>"

section \<open>What the source file takes from outside\<close>

text \<open>
  Declarations of this repository that the phases use and that other packages hold:
  the constants of package \<open>operatorv1\<close>, \<open>util.ClusterctlProviderType\<close> and the format
  \<open>capiVersionIncompatibilityMessage\<close>. They are parameters of the model, so every
  theorem holds for all their values.
\<close>

record operatorv1 =
  PreflightCheckCondition :: ConditionType
  ProviderInstalledCondition :: ConditionType
  UnknownProviderReason :: string
  CAPIVersionIncompatibilityReason :: string
  ComponentsFetchErrorReason :: string
  OldComponentsDeletionErrorReason :: string
  ConfigMapVersionLabelName :: string
  capiVersionIncompatibilityMessage :: "string \<times> string \<times> string \<times> string"
  ClusterctlProviderType :: "GenericProvider \<Rightarrow> string"

text \<open>
  Modelled from the spec: the format \<open>capiVersionIncompatibilityMessage\<close> is declared
  outside \<open>phases.go\<close>. \<open>validateRepoCAPIVersion\<close> passes it three string arguments, and
  by the spec the resulting message names all three; so the format is three \<open>%s\<close> verbs
  between four pieces of literal text. The four pieces are the parameter, and
  \<open>errors.Errorf\<close> on such a format puts the arguments between them.
\<close>

definition Errorf3 :: "string \<times> string \<times> string \<times> string \<Rightarrow> string \<Rightarrow> string \<Rightarrow> string \<Rightarrow> error" where
  "Errorf3 format a b c =
     (case format of (p0, p1, p2, p3) \<Rightarrow> ErrorString (p0 @ a @ p1 @ b @ p2 @ c @ p3))"

text \<open>
  The libraries, parameters as well: \<open>versionutil\<close> (semantic versions, of an abstract
  type \<open>'v\<close>), \<open>apierrors.IsNotFound\<close>, \<open>clusterv1.GroupVersion.Version\<close>, clusterctl's
  metadata type with its decoder and \<open>GetReleaseSeriesForVersion\<close>, the \<open>Error()\<close> text
  of an error a library made, and clusterctl's \<open>repository.MemoryRepository\<close> (of an
  abstract type \<open>'m\<close>) with the constructor, the two builder methods and the three
  methods of the \<open>Repository\<close> interface that the phases call.
\<close>

record ReleaseSeries =
  rs_Major :: nat
  rs_Minor :: nat
  rs_Contract :: string

record Metadata =
  md_ReleaseSeries :: "ReleaseSeries list"

record ('v, 'm) libs =
  ParseSemantic :: "string \<Rightarrow> error + 'v"
  LessThan :: "'v \<Rightarrow> 'v \<Rightarrow> bool"
  IsNotFound :: "error \<Rightarrow> bool"
  GroupVersion_Version :: string
  DecodeInto :: "string \<Rightarrow> error + Metadata"
  GetReleaseSeriesForVersion :: "Metadata \<Rightarrow> 'v \<Rightarrow> ReleaseSeries option"
  ErrorText :: "error \<Rightarrow> string"
  NewMemoryRepository :: 'm
  WithPaths :: "'m \<Rightarrow> string \<Rightarrow> string \<Rightarrow> 'm"
  WithFile :: "'m \<Rightarrow> string \<Rightarrow> string \<Rightarrow> string \<Rightarrow> 'm"
  mem_DefaultVersion :: "'m \<Rightarrow> string"
  mem_ComponentsPath :: "'m \<Rightarrow> string"
  mem_GetFile :: "'m \<Rightarrow> string \<Rightarrow> string \<Rightarrow> error + string"

text \<open>
  \<open>PhaseError.Error()\<close> returns the text of the wrapped error; an \<open>ErrorString\<close> carries
  its own text.
\<close>

fun Error :: "('v, 'm) libs \<Rightarrow> error \<Rightarrow> string" where
  "Error L (PhaseError r t sv e) = Error L e"
| "Error L (ErrorString m) = m"
| "Error L e = ErrorText L e"

text \<open>A \<open>*MemoryRepository\<close> seen through the \<open>Repository\<close> interface.\<close>

definition asRepository :: "('v, 'm) libs \<Rightarrow> 'm \<Rightarrow> Repository" where
  "asRepository L f =
     \<lparr>DefaultVersion = mem_DefaultVersion L f, ComponentsPath = mem_ComponentsPath L f,
      GetFile = mem_GetFile L f\<rparr>"

text \<open>
  The cluster and the clusterctl clients: every call that reads or changes something
  outside the reconciler is a function of the record below, from the call's arguments
  to what the call returns. \<open>'c\<close> is the configuration client, \<open>'p\<close> the provider's
  registry configuration, \<open>'r\<close> clusterctl's \<open>MemoryReader\<close>.
\<close>

record ConfigMap =
  cm_Namespace :: string
  cm_Name :: string
  cm_Labels :: "(string \<rightharpoonup> string) option"
  cm_Data :: "string \<rightharpoonup> string"

record ('c, 'p) ComponentsInput =
  in_Provider :: "'p option"
  in_ConfigClient :: "'c option"
  in_RawYaml :: string
  in_Options :: ComponentsOptions

record ('c, 'p, 'r) cluster =
  GetSecret :: "ObjectKey \<Rightarrow> error + (string \<times> string) list"
  GetConfigMap :: "ObjectKey \<Rightarrow> error + ConfigMap"
  GetClusterctlProvider :: "ObjectKey \<Rightarrow> error + ClusterctlProvider"
  NewMemoryReader :: 'r
  reader_Init :: "'r \<Rightarrow> string \<Rightarrow> error + 'r"
  reader_Set :: "'r \<Rightarrow> string \<Rightarrow> string \<Rightarrow> 'r"
  reader_AddProvider :: "'r \<Rightarrow> string \<Rightarrow> string \<Rightarrow> string \<Rightarrow> error + 'r"
  configclient_New :: "'r \<Rightarrow> error + 'c"
  Providers_Get :: "'c \<Rightarrow> string \<Rightarrow> string \<Rightarrow> error + 'p"
  ManifestLabel :: "'p \<Rightarrow> string"
  NewGitHubRepository :: "'p \<Rightarrow> 'c \<Rightarrow> error + Repository"
  NewComponents :: "('c, 'p) ComponentsInput \<Rightarrow> error + Components"
  AlterComponents :: "Components \<Rightarrow> GenericProvider \<Rightarrow> error + Components"
  EnsureCustomResourceDefinitions :: "error option"
  Install :: "Components option \<Rightarrow> error option"
  Delete :: "DeleteOptions \<Rightarrow> error option"

section \<open>Upgrade detection\<close>

definition clusterctlProviderName :: "GenericProvider \<Rightarrow> ObjectKey" where
  "clusterctlProviderName p =
     (let prefix =
        (case Kind p of
           BootstrapProvider \<Rightarrow> ''bootstrap-''
         | ControlPlaneProvider \<Rightarrow> ''control-plane-''
         | InfrastructureProvider \<Rightarrow> ''infrastructure-''
         | CoreProvider \<Rightarrow> [])
      in \<lparr>key_Namespace = Namespace p, key_Name = prefix @ Name p\<rparr>)"

text \<open>
  \<open>updateRequiresPreDeletion\<close> returns \<open>(bool, error)\<close>; \<open>ctrlClient.Get\<close> fills
  \<open>s.clusterctlProvider\<close> when it finds the record, so the reconciler is returned too.
  \<open>s.components.Version()\<close> on a \<open>nil\<close> \<open>components\<close> panics.
\<close>

definition updateRequiresPreDeletion ::
  "('v, 'm) libs \<Rightarrow> ('c, 'p, 'r) cluster \<Rightarrow> ('c, 'p) phaseReconciler \<Rightarrow> GenericProvider
     \<Rightarrow> (bool \<times> error option \<times> ('c, 'p) phaseReconciler) outcome" where
  "updateRequiresPreDeletion L W s prov =
     (case GetClusterctlProvider W (clusterctlProviderName prov) of
        Inl err \<Rightarrow>
          if IsNotFound L err then Return (False, None, s)
          else Return (False, Some err, s)
      | Inr found \<Rightarrow>
          (let s1 = s\<lparr>clusterctlProvider := found\<rparr> in
           if cp_Version (clusterctlProvider s1) = [] then Return (False, None, s1)
           else
             (case components s1 of
                None \<Rightarrow> Panic
              | Some comps \<Rightarrow>
                  (case ParseSemantic L (comp_Version comps) of
                     Inl err \<Rightarrow> Return (False, Some err, s1)
                   | Inr nextVersion \<Rightarrow>
                       (case ParseSemantic L (cp_Version (clusterctlProvider s1)) of
                          Inl err \<Rightarrow> Return (False, Some err, s1)
                        | Inr currentVersion \<Rightarrow>
                            Return (LessThan L currentVersion nextVersion, None, s1))))))"

section \<open>The load phase\<close>

definition metadataFile :: string where
  "metadataFile = ''metadata.yaml''"

text \<open>
  \<open>secretReader\<close>: the variables of the referenced secret go into a fresh
  \<open>MemoryReader\<close>, then the fetch URL if there is one. \<open>secret.Data\<close> is given as the
  list of its entries in the order the \<open>range\<close> loop visits them.
\<close>

definition secretReader ::
  "operatorv1 \<Rightarrow> ('c, 'p, 'r) cluster \<Rightarrow> GenericProvider \<Rightarrow> error + 'r" where
  "secretReader K W prov =
     (case reader_Init W (NewMemoryReader W) [] of
        Inl err \<Rightarrow> Inl err
      | Inr mr \<Rightarrow>
          (case (case SecretName (Spec prov) of
                   Some secretName \<Rightarrow>
                     (case GetSecret W \<lparr>key_Namespace = Namespace prov, key_Name = secretName\<rparr> of
                        Inl err \<Rightarrow> Inl err
                      | Inr data \<Rightarrow> Inr (foldl (\<lambda>m (k, v). reader_Set W m k v) mr data))
                 | None \<Rightarrow> Inr mr) of
             Inl err \<Rightarrow> Inl err
           | Inr mr1 \<Rightarrow>
               (case FetchConfig (Spec prov) of
                  None \<Rightarrow> Inr mr1
                | Some fc \<Rightarrow>
                    (case URL fc of
                       None \<Rightarrow> Inr mr1
                     | Some url \<Rightarrow>
                         reader_AddProvider W mr1 (Name prov) (ClusterctlProviderType K prov) url))))"

text \<open>
  \<open>configmapRepository\<close> returns the \<open>*MemoryRepository\<close> it built (as a
  \<open>repository.Repository\<close>), or the first error: a \<open>nil\<close> reference, the failed read of
  the ConfigMap, an invalid version, a missing key.
\<close>

definition configmapRepository ::
  "operatorv1 \<Rightarrow> ('v, 'm) libs \<Rightarrow> ('c, 'p, 'r) cluster \<Rightarrow> ObjectReference option
     \<Rightarrow> error + 'm" where
  "configmapRepository K L W configMapRef =
     (case configMapRef of
        None \<Rightarrow> Inl (ErrorString ''configmap reference is nil'')
      | Some ref \<Rightarrow>
          (let mr = WithPaths L (NewMemoryRepository L) [] ''components.yaml'';
               key = \<lparr>key_Namespace = ref_Namespace ref, key_Name = ref_Name ref\<rparr>
           in case GetConfigMap W key of
                Inl err \<Rightarrow> Inl err
              | Inr cm \<Rightarrow>
                  (let (version, errMsg) =
                         (case cm_Labels cm of
                            None \<Rightarrow> (cm_Name cm, ''from the Name'')
                          | Some labels \<Rightarrow>
                              (case labels (ConfigMapVersionLabelName K) of
                                 None \<Rightarrow> (cm_Name cm, ''from the Name'')
                               | Some ver \<Rightarrow>
                                   (ver, ''from the Label '' @ ConfigMapVersionLabelName K)))
                   in case ParseSemantic L version of
                        Inl err \<Rightarrow>
                          Inl (ErrorString (''ConfigMap '' @ cm_Namespace cm @ ''/'' @ cm_Name cm
                                 @ '' has invalid version:'' @ version @ '' ('' @ errMsg @ '')''))
                      | Inr parsed \<Rightarrow>
                          (case cm_Data cm ''metadata'' of
                             None \<Rightarrow>
                               Inl (ErrorString (''ConfigMap '' @ cm_Namespace cm @ ''/''
                                      @ cm_Name cm @ '' has no metadata''))
                           | Some metadata \<Rightarrow>
                               (let mr1 = WithFile L mr version metadataFile metadata
                                in case cm_Data cm ''components'' of
                                     None \<Rightarrow>
                                       Inl (ErrorString (''ConfigMap '' @ cm_Namespace cm @ ''/''
                                              @ cm_Name cm @ '' has no components''))
                                   | Some comps \<Rightarrow>
                                       Inr (WithFile L mr1 version (mem_ComponentsPath L mr1) comps))))))"

text \<open>
  \<open>validateRepoCAPIVersion\<close> reads the metadata file at \<open>s.options.Version\<close>, finds the
  release series of that version and accepts the contracts \<open>v1alpha4\<close> and \<open>v1beta1\<close>.
\<close>

definition validateRepoCAPIVersion ::
  "operatorv1 \<Rightarrow> ('v, 'm) libs \<Rightarrow> ('c, 'p) phaseReconciler \<Rightarrow> GenericProvider
     \<Rightarrow> (error option \<times> ('c, 'p) phaseReconciler) outcome" where
  "validateRepoCAPIVersion K L s prov =
     (let name = Name prov in
      case repo s of
        None \<Rightarrow> Panic
      | Some r \<Rightarrow>
          (let s1 = s\<lparr>calls := calls s @ [CallGetFile (opt_Version (options s)) metadataFile]\<rparr>
           in case GetFile r (opt_Version (options s)) metadataFile of
                Inl err \<Rightarrow>
                  Return (Some (Wrapf err ''failed to read %q from the repository for provider %q''
                                  [metadataFile, name]), s1)
              | Inr file \<Rightarrow>
                  (case DecodeInto L file of
                     Inl err \<Rightarrow>
                       Return (Some (Wrapf err ''error decoding %q for provider %q''
                                       [metadataFile, name]), s1)
                   | Inr latestMetadata \<Rightarrow>
                       (case ParseSemantic L (opt_Version (options s)) of
                          Inl err \<Rightarrow>
                            Return (Some (Wrapf err
                                      ''failed to parse current version for the %s provider''
                                      [name]), s1)
                        | Inr currentVersion \<Rightarrow>
                            (case GetReleaseSeriesForVersion L latestMetadata currentVersion of
                               None \<Rightarrow>
                                 Return (Some (ErrorString
                                    (''invalid provider metadata: version ''
                                       @ opt_Version (options s) @ '' for the provider '' @ name
                                       @ '' does not match any release series'')), s1)
                             | Some releaseSeries \<Rightarrow>
                                 if rs_Contract releaseSeries \<noteq> ''v1alpha4''
                                    \<and> rs_Contract releaseSeries \<noteq> ''v1beta1''
                                 then Return (Some (Errorf3 (capiVersionIncompatibilityMessage K)
                                                (GroupVersion_Version L)
                                                (rs_Contract releaseSeries) name), s1)
                                 else Return (None, s1\<lparr>contract := rs_Contract releaseSeries\<rparr>))))))"

text \<open>
  \<open>load\<close>. An assignment \<open>p.x, err = f()\<close> stores what \<open>f\<close> returned also when \<open>err\<close> is
  set: a constructor that fails returns \<open>nil\<close> with its error.
\<close>

definition load ::
  "operatorv1 \<Rightarrow> ('v, 'm) libs \<Rightarrow> ('c, 'p, 'r) cluster \<Rightarrow> ('c, 'p) phaseReconciler
     \<Rightarrow> (error option \<times> ('c, 'p) phaseReconciler) outcome" where
  "load K L W p =
     (case secretReader K W (provider p) of
        Inl err \<Rightarrow>
          Return (wrapPhaseError (Some err) ''failed to load the secret reader''
                    (PreflightCheckCondition K), p)
      | Inr reader \<Rightarrow>
          (case configclient_New W reader of
             Inl err \<Rightarrow> Return (Some err, p\<lparr>configClient := None\<rparr>)
           | Inr cc \<Rightarrow>
               (let p1 = p\<lparr>configClient := Some cc\<rparr> in
                case Providers_Get W cc (Name (provider p1)) (ClusterctlProviderType K (provider p1)) of
                  Inl err \<Rightarrow>
                    Return (wrapPhaseError (Some err) (UnknownProviderReason K)
                              (PreflightCheckCondition K), p1\<lparr>providerConfig := None\<rparr>)
                | Inr pc \<Rightarrow>
                    (let p2 = p1\<lparr>providerConfig := Some pc\<rparr>;
                         spec = Spec (provider p2);
                         configMapRef =
                           (case FetchConfig spec of None \<Rightarrow> None | Some fc \<Rightarrow> ConfigMap fc)
                     in case (if configMapRef \<noteq> None
                              then map_sum id (asRepository L) (configmapRepository K L W configMapRef)
                              else NewGitHubRepository W pc cc) of
                          Inl err \<Rightarrow>
                            Return (wrapPhaseError (Some err) ''failed to load the repository''
                                      (PreflightCheckCondition K), p2\<lparr>repo := None\<rparr>)
                        | Inr r \<Rightarrow>
                            (let p3 = p2\<lparr>repo := Some r\<rparr>;
                                 p4 = p3\<lparr>options :=
                                        \<lparr>TargetNamespace = Namespace (provider p3),
                                         SkipTemplateProcess = False,
                                         opt_Version = DefaultVersion r\<rparr>\<rparr>;
                                 p5 = (case Version spec of
                                         None \<Rightarrow> p4
                                       | Some v \<Rightarrow> p4\<lparr>options := (options p4)\<lparr>opt_Version := v\<rparr>\<rparr>)
                             in case validateRepoCAPIVersion K L p5 (provider p5) of
                                  Panic \<Rightarrow> Panic
                                | Return (err, p6) \<Rightarrow>
                                    Return (wrapPhaseError err (CAPIVersionIncompatibilityReason K)
                                              (PreflightCheckCondition K), p6))))))"

section \<open>The fetch phase\<close>

definition setTrueCondition :: "GenericProvider \<Rightarrow> ConditionType \<Rightarrow> GenericProvider" where
  "setTrueCondition prov t =
     prov\<lparr>Status := (Status prov)\<lparr>Conditions := (Conditions (Status prov))(t \<mapsto> True)\<rparr>\<rparr>"

definition fetch ::
  "operatorv1 \<Rightarrow> ('c, 'p, 'r) cluster \<Rightarrow> ('c, 'p) phaseReconciler
     \<Rightarrow> (error option \<times> ('c, 'p) phaseReconciler) outcome" where
  "fetch K W p =
     (case repo p of
        None \<Rightarrow> Panic
      | Some r \<Rightarrow>
          (let p1 = p\<lparr>calls := calls p @ [CallGetFile (opt_Version (options p)) (ComponentsPath r)]\<rparr>
           in case GetFile r (opt_Version (options p)) (ComponentsPath r) of
                Inl err \<Rightarrow>
                  (case providerConfig p1 of
                     None \<Rightarrow> Panic
                   | Some pc \<Rightarrow>
                       Return (wrapPhaseError
                                 (Some (Wrapf err
                                    ''failed to read %q from provider's repository %q: %w''
                                    [ComponentsPath r, ManifestLabel W pc]))
                                 (ComponentsFetchErrorReason K) (PreflightCheckCondition K), p1))
              | Inr componentsFile \<Rightarrow>
                  (case NewComponents W
                          \<lparr>in_Provider = providerConfig p1, in_ConfigClient = configClient p1,
                           in_RawYaml = componentsFile, in_Options = options p1\<rparr> of
                     Inl err \<Rightarrow>
                       Return (wrapPhaseError (Some err) (ComponentsFetchErrorReason K)
                                 (PreflightCheckCondition K), p1\<lparr>components := None\<rparr>)
                   | Inr comps \<Rightarrow>
                       (let p2 = p1\<lparr>components := Some comps\<rparr> in
                        case AlterComponents W comps (provider p2) of
                          Inl err \<Rightarrow>
                            Return (wrapPhaseError (Some err) (ComponentsFetchErrorReason K)
                                      (PreflightCheckCondition K), p2)
                        | Inr altered \<Rightarrow>
                            Return (None,
                              p2\<lparr>components := Some altered,
                                 provider := setTrueCondition (provider p2)
                                               (PreflightCheckCondition K)\<rparr>)))))"

section \<open>The delete, pre-install and install phases\<close>

definition delete ::
  "operatorv1 \<Rightarrow> ('c, 'p, 'r) cluster \<Rightarrow> ('c, 'p) phaseReconciler
     \<Rightarrow> (error option \<times> ('c, 'p) phaseReconciler) outcome" where
  "delete K W p =
     (let cp = (clusterctlProvider p)
                 \<lparr>cp_Name := key_Name (clusterctlProviderName (provider p)),
                  cp_Namespace := Namespace (provider p),
                  cp_Type := ClusterctlProviderType K (provider p),
                  cp_ProviderName := Name (provider p)\<rparr>;
          cp1 = (if cp_Version cp = [] then cp\<lparr>cp_Version := opt_Version (options p)\<rparr> else cp);
          opts = \<lparr>del_Provider = cp1, IncludeNamespace = False, IncludeCRDs = False\<rparr>;
          p1 = p\<lparr>clusterctlProvider := cp1, calls := calls p @ [CallDelete opts]\<rparr>
      in Return (wrapPhaseError (Delete W opts) (OldComponentsDeletionErrorReason K)
                   (ProviderInstalledCondition K), p1))"

definition preInstall ::
  "operatorv1 \<Rightarrow> ('v, 'm) libs \<Rightarrow> ('c, 'p, 'r) cluster \<Rightarrow> ('c, 'p) phaseReconciler
     \<Rightarrow> (error option \<times> ('c, 'p) phaseReconciler) outcome" where
  "preInstall K L W p =
     (let p1 = p\<lparr>calls := calls p @ [CallEnsureCustomResourceDefinitions]\<rparr> in
      case EnsureCustomResourceDefinitions W of
        Some err \<Rightarrow>
          Return (wrapPhaseError (Some err) ''failed installing clusterctl CRDs''
                    (ProviderInstalledCondition K), p1)
      | None \<Rightarrow>
          (case updateRequiresPreDeletion L W p1 (provider p1) of
             Panic \<Rightarrow> Panic
           | Return (needPreDelete, err, p2) \<Rightarrow>
               if err \<noteq> None \<or> \<not> needPreDelete
               then Return (wrapPhaseError err ''failed getting clusterctl Provider''
                              (ProviderInstalledCondition K), p2)
               else delete K W p2))"

definition install ::
  "operatorv1 \<Rightarrow> ('c, 'p, 'r) cluster \<Rightarrow> ('c, 'p) phaseReconciler
     \<Rightarrow> (error option \<times> ('c, 'p) phaseReconciler) outcome" where
  "install K W p =
     (let p1 = p\<lparr>calls := calls p @ [CallInstall (components p)]\<rparr> in
      case Install W (components p) of
        Some err \<Rightarrow>
          (let reason = (if err = ErrWaitTimeout
                         then ''Timedout waiting for deployment to become ready''
                         else ''Install failed'')
           in Return (wrapPhaseError (Some err) reason (ProviderInstalledCondition K), p1))
      | None \<Rightarrow>
          (let spec = Spec (provider p1) in
           case (if Version spec = None
                 then (case components p1 of
                         None \<Rightarrow> Panic
                       | Some comps \<Rightarrow>
                           Return ((provider p1)\<lparr>Spec := spec\<lparr>Version := Some (comp_Version comps)\<rparr>\<rparr>))
                 else Return (provider p1)) of
             Panic \<Rightarrow> Panic
           | Return prov \<Rightarrow>
               (let status = (Status prov)\<lparr>Contract := Some (contract p1),
                                            ObservedGeneration := Generation prov\<rparr>;
                    prov1 = prov\<lparr>Status := status\<rparr>
                in Return (None,
                     p1\<lparr>provider := setTrueCondition prov1 (ProviderInstalledCondition K)\<rparr>))))"

section \<open>Admission: validation of a provider spec, and the bootstrap provider webhook\<close>

text \<open>
  \<open>operatorv1.ProviderSpec\<close> as \<open>validateProviderSpec\<close> reads it: the version is a plain
  string, the fetch configuration has a label selector, which in turn has a match-labels
  map. Any further fields are the record's extension.
\<close>

record LabelSelector =
  MatchLabels :: "(string \<rightharpoonup> string) option"

record wFetchConfiguration =
  Selector :: "LabelSelector option"

record wProviderSpec =
  wVersion :: string
  wFetchConfig :: "wFetchConfiguration option"

text \<open>\<open>field.Path\<close>, \<open>field.Error\<close> and \<open>field.Invalid\<close> of apimachinery.\<close>

type_synonym Path = "string list"

definition NewPath :: "string \<Rightarrow> Path" where
  "NewPath name = [name]"

definition Child :: "Path \<Rightarrow> string \<Rightarrow> Path" where
  "Child p name = p @ [name]"

fun Path_String :: "Path \<Rightarrow> string" where
  "Path_String [] = []"
| "Path_String [x] = x"
| "Path_String (x # y # ys) = x @ ''.'' @ Path_String (y # ys)"

datatype ErrorType = ErrorTypeNotFound | ErrorTypeRequired | ErrorTypeInvalid | ErrorTypeForbidden

record field_Error =
  fe_Type :: ErrorType
  fe_Field :: string
  fe_BadValue :: string
  fe_Detail :: string

definition Invalid :: "Path \<Rightarrow> string \<Rightarrow> string \<Rightarrow> field_Error" where
  "Invalid path val detail =
     \<lparr>fe_Type = ErrorTypeInvalid, fe_Field = Path_String path, fe_BadValue = val,
      fe_Detail = detail\<rparr>"

definition validateProviderSpec ::
  "('v, 'm) libs \<Rightarrow> 'a wProviderSpec_scheme \<Rightarrow> field_Error list" where
  "validateProviderSpec L spec =
     (let allErrs = [];
          allErrs1 =
            (if wVersion spec \<noteq> []
             then (case ParseSemantic L (wVersion spec) of
                     Inl err \<Rightarrow>
                       allErrs @ [Invalid (Child (NewPath ''spec'') ''version'') (wVersion spec)
                                    (''invalid semantic version: '' @ Error L err)]
                   | Inr parsed \<Rightarrow> allErrs)
             else allErrs)
      in if (case wFetchConfig spec of
               None \<Rightarrow> False
             | Some fc \<Rightarrow>
                 (case Selector fc of
                    None \<Rightarrow> False
                  | Some sel \<Rightarrow> MatchLabels sel \<noteq> None))
         then allErrs1 @ [Invalid (Child (NewPath ''spec'') ''fetchConfig'') (wVersion spec)
                ''can't use selector and matchlabels, only one option is allowed'']
         else allErrs1)"

text \<open>
  The validators of \<open>BootstrapProviderWebhook\<close>: each returns \<open>(nil, nil)\<close>, the warnings
  (a \<open>nil\<close> slice, the empty list) and the error.
\<close>

definition ValidateCreate :: "'ctx \<Rightarrow> 'obj \<Rightarrow> string list \<times> error option" where
  "ValidateCreate ctx obj = ([], None)"

definition ValidateUpdate :: "'ctx \<Rightarrow> 'obj \<Rightarrow> 'obj \<Rightarrow> string list \<times> error option" where
  "ValidateUpdate ctx oldObj newObj = ([], None)"

definition ValidateDelete :: "'ctx \<Rightarrow> 'obj \<Rightarrow> string list \<times> error option" where
  "ValidateDelete ctx obj = ([], None)"

section \<open>A sample environment\<close>

text \<open>
  The theorems below hold for every environment. To run the model on concrete inputs
  the parameters are given sample values here.
\<close>

text \<open>
  Modelled from the spec: \<open>versionutil.ParseSemantic\<close> and \<open>Version.LessThan\<close> belong to
  apimachinery, not to this repository. The sample follows the spec's VersionOracle: a
  leading \<open>v\<close> is optional, then numeric \<open>major.minor.patch\<close>, then optional pre-release
  and build metadata; versions are ordered by semantic-version precedence, a pre-release
  before the release of the same \<open>major.minor.patch\<close>.
\<close>

record SemVer =
  sv_Major :: nat
  sv_Minor :: nat
  sv_Patch :: nat
  sv_PreRelease :: string
  sv_BuildMetadata :: string

definition isDigit :: "char \<Rightarrow> bool" where
  "isDigit c = (48 \<le> (of_char c :: nat) \<and> (of_char c :: nat) \<le> 57)"

definition isIdentChar :: "char \<Rightarrow> bool" where
  "isIdentChar c =
     (let n = (of_char c :: nat)
      in (48 \<le> n \<and> n \<le> 57) \<or> (65 \<le> n \<and> n \<le> 90) \<or> (97 \<le> n \<and> n \<le> 122) \<or> n = 45)"

definition parseUint :: "string \<Rightarrow> nat option" where
  "parseUint s =
     (if s \<noteq> [] \<and> list_all isDigit s
      then Some (foldl (\<lambda>n c. 10 * n + (of_char c - 48)) 0 s)
      else None)"

fun splitOn :: "char \<Rightarrow> string \<Rightarrow> string list" where
  "splitOn c [] = [[]]"
| "splitOn c (x # xs) =
     (if x = c then [] # splitOn c xs
      else (case splitOn c xs of [] \<Rightarrow> [[x]] | y # ys \<Rightarrow> (x # y) # ys))"

definition validIdents :: "string \<Rightarrow> bool" where
  "validIdents s = list_all (\<lambda>i. i \<noteq> [] \<and> list_all isIdentChar i) (splitOn (CHR ''.'') s)"

definition parseExtra :: "string \<Rightarrow> (string \<times> string) option" where
  "parseExtra extra =
     (case extra of
        [] \<Rightarrow> Some ([], [])
      | c # rest \<Rightarrow>
          if c = CHR ''-'' then
            (let pre = takeWhile (\<lambda>d. d \<noteq> CHR ''+'') rest;
                 build = dropWhile (\<lambda>d. d \<noteq> CHR ''+'') rest
             in if \<not> validIdents pre then None
                else if build = [] then Some (pre, [])
                else if validIdents (tl build) then Some (pre, tl build)
                else None)
          else if c = CHR ''+'' then (if validIdents rest then Some ([], rest) else None)
          else None)"

definition sampleParseSemantic :: "string \<Rightarrow> error + SemVer" where
  "sampleParseSemantic str =
     (let s = (case str of [] \<Rightarrow> [] | c # rest \<Rightarrow> if c = CHR ''v'' then rest else str);
          numbers = takeWhile (\<lambda>c. isDigit c \<or> c = CHR ''.'') s;
          extra = dropWhile (\<lambda>c. isDigit c \<or> c = CHR ''.'') s
      in case map parseUint (splitOn (CHR ''.'') numbers) of
           [Some ma, Some mi, Some pa] \<Rightarrow>
             (case parseExtra extra of
                None \<Rightarrow> Inl (ErrorString (''could not parse pre-release/metadata in version '' @ str))
              | Some (pre, build) \<Rightarrow>
                  Inr \<lparr>sv_Major = ma, sv_Minor = mi, sv_Patch = pa,
                       sv_PreRelease = pre, sv_BuildMetadata = build\<rparr>)
         | _ \<Rightarrow> Inl (ErrorString (''illegal version string '' @ str)))"

fun strLess :: "string \<Rightarrow> string \<Rightarrow> bool" where
  "strLess [] [] = False"
| "strLess [] (y # ys) = True"
| "strLess (x # xs) [] = False"
| "strLess (x # xs) (y # ys) =
     (if (of_char x :: nat) < of_char y then True
      else if (of_char y :: nat) < of_char x then False
      else strLess xs ys)"

definition identLess :: "string \<Rightarrow> string \<Rightarrow> bool" where
  "identLess a b =
     (case parseUint a of
        Some m \<Rightarrow> (case parseUint b of Some n \<Rightarrow> m < n | None \<Rightarrow> True)
      | None \<Rightarrow> (case parseUint b of Some n \<Rightarrow> False | None \<Rightarrow> strLess a b))"

fun preLess :: "string list \<Rightarrow> string list \<Rightarrow> bool" where
  "preLess [] [] = False"
| "preLess [] (y # ys) = True"
| "preLess (x # xs) [] = False"
| "preLess (x # xs) (y # ys) =
     (if identLess x y then True else if identLess y x then False else preLess xs ys)"

definition sampleLessThan :: "SemVer \<Rightarrow> SemVer \<Rightarrow> bool" where
  "sampleLessThan a b =
     (if sv_Major a \<noteq> sv_Major b then sv_Major a < sv_Major b
      else if sv_Minor a \<noteq> sv_Minor b then sv_Minor a < sv_Minor b
      else if sv_Patch a \<noteq> sv_Patch b then sv_Patch a < sv_Patch b
      else if sv_PreRelease a = [] then False
      else if sv_PreRelease b = [] then True
      else preLess (splitOn (CHR ''.'') (sv_PreRelease a)) (splitOn (CHR ''.'') (sv_PreRelease b)))"

text \<open>
  Modelled from the spec: clusterctl's \<open>repository.MemoryRepository\<close>, which
  \<open>configmapRepository\<close> builds, is not among the files of this repository. By the spec
  the in-memory repository is backed by the \<open>metadata\<close> and \<open>components\<close> entries of
  the configuration object, and \<open>DefaultVersion\<close> returns the single version baked into
  the instance. So a new repository has no version; \<open>WithPaths\<close> sets the two paths;
  \<open>WithFile\<close> stores the file under version and path, marks the version available, and
  makes it the default version when the repository has none yet; \<open>GetFile\<close> serves the
  files the repository holds, at the default version when none is given.
\<close>

record MemoryRepository =
  defaultVersion :: string
  rootPath :: string
  componentsPath :: string
  files :: "string \<rightharpoonup> string"
  versions :: "string \<rightharpoonup> bool"

definition memNew :: MemoryRepository where
  "memNew =
     \<lparr>defaultVersion = [], rootPath = [], componentsPath = [],
      files = Map.empty, versions = Map.empty\<rparr>"

definition memWithPaths :: "MemoryRepository \<Rightarrow> string \<Rightarrow> string \<Rightarrow> MemoryRepository" where
  "memWithPaths f root comps = f\<lparr>rootPath := root, componentsPath := comps\<rparr>"

definition vpath :: "string \<Rightarrow> string \<Rightarrow> string" where
  "vpath version path = version @ ''/'' @ path"

definition memWithFile :: "MemoryRepository \<Rightarrow> string \<Rightarrow> string \<Rightarrow> string \<Rightarrow> MemoryRepository" where
  "memWithFile f version path content =
     f\<lparr>defaultVersion := (if defaultVersion f = [] then version else defaultVersion f),
       versions := (versions f)(version \<mapsto> True),
       files := (files f)(vpath version path \<mapsto> content)\<rparr>"

definition memGetFile :: "MemoryRepository \<Rightarrow> string \<Rightarrow> string \<Rightarrow> error + string" where
  "memGetFile f version path =
     (let v = (if version = [] then defaultVersion f else version)
      in case files f (vpath v path) of
           None \<Rightarrow> Inl (ErrorString (''unable to get files for version '' @ v))
         | Some content \<Rightarrow> Inr content)"

text \<open>
  Modelled from the spec: an environment whose memory repository is the one above
  (\<open>MemoryRepository\<close> is clusterctl's, not among the files of this repository).
\<close>

definition specMemoryRepository :: "('v, MemoryRepository) libs \<Rightarrow> bool" where
  "specMemoryRepository L =
     (NewMemoryRepository L = memNew \<and> WithPaths L = memWithPaths
      \<and> WithFile L = memWithFile \<and> mem_DefaultVersion L = defaultVersion
      \<and> mem_ComponentsPath L = componentsPath \<and> mem_GetFile L = memGetFile)"

text \<open>
  The other library parameters of the sample: a status error is not-found by its
  reason; two metadata documents decode, each to one release series.
\<close>

definition sampleIsNotFound :: "error \<Rightarrow> bool" where
  "sampleIsNotFound e = (case e of StatusError r m \<Rightarrow> r = ''NotFound'' | _ \<Rightarrow> False)"

definition sampleDecodeInto :: "string \<Rightarrow> error + Metadata" where
  "sampleDecodeInto file =
     (if file = ''releaseSeries: [{major: 1, minor: 0, contract: v1beta1}]''
      then Inr \<lparr>md_ReleaseSeries = [\<lparr>rs_Major = 1, rs_Minor = 0, rs_Contract = ''v1beta1''\<rparr>]\<rparr>
      else if file = ''releaseSeries: [{major: 1, minor: 0, contract: v1alpha3}]''
      then Inr \<lparr>md_ReleaseSeries = [\<lparr>rs_Major = 1, rs_Minor = 0, rs_Contract = ''v1alpha3''\<rparr>]\<rparr>
      else Inl (ErrorString ''cannot decode the metadata''))"

definition sampleGetReleaseSeriesForVersion :: "Metadata \<Rightarrow> SemVer \<Rightarrow> ReleaseSeries option" where
  "sampleGetReleaseSeriesForVersion md v =
     find (\<lambda>rs. sv_Major v = rs_Major rs \<and> sv_Minor v = rs_Minor rs) (md_ReleaseSeries md)"

definition sampleErrorText :: "error \<Rightarrow> string" where
  "sampleErrorText e =
     (case e of
        ErrWaitTimeout \<Rightarrow> ''timed out waiting for the condition''
      | StatusError r m \<Rightarrow> m
      | _ \<Rightarrow> ''error'')"

definition L0 :: "(SemVer, MemoryRepository) libs" where
  "L0 = \<lparr>ParseSemantic = sampleParseSemantic, LessThan = sampleLessThan,
         IsNotFound = sampleIsNotFound, GroupVersion_Version = ''v1beta1'',
         DecodeInto = sampleDecodeInto,
         GetReleaseSeriesForVersion = sampleGetReleaseSeriesForVersion,
         ErrorText = sampleErrorText,
         NewMemoryRepository = memNew, WithPaths = memWithPaths, WithFile = memWithFile,
         mem_DefaultVersion = defaultVersion, mem_ComponentsPath = componentsPath,
         mem_GetFile = memGetFile\<rparr>"

definition K0 :: operatorv1 where
  "K0 = \<lparr>PreflightCheckCondition = ''PreflightCheckCondition'',
         ProviderInstalledCondition = ''ProviderInstalledCondition'',
         UnknownProviderReason = ''UnknownProviderReason'',
         CAPIVersionIncompatibilityReason = ''CAPIVersionIncompatibilityReason'',
         ComponentsFetchErrorReason = ''ComponentsFetchErrorReason'',
         OldComponentsDeletionErrorReason = ''OldComponentsDeletionErrorReason'',
         ConfigMapVersionLabelName = ''cluster.x-k8s.io/version'',
         capiVersionIncompatibilityMessage =
           (''only compatible with '', '' providers, detected '', '' for provider '', ''.''),
         ClusterctlProviderType = (\<lambda>p. case Kind p of
             CoreProvider \<Rightarrow> ''CoreProvider''
           | BootstrapProvider \<Rightarrow> ''BootstrapProvider''
           | ControlPlaneProvider \<Rightarrow> ''ControlPlaneProvider''
           | InfrastructureProvider \<Rightarrow> ''InfrastructureProvider'')\<rparr>"

text \<open>
  The sample cluster holds no secret, no ConfigMap and no provider record; its remote
  registry has the release \<open>v1.0.0\<close>; rendering, installing and deleting succeed.
\<close>

definition notFound :: error where
  "notFound = StatusError ''NotFound'' ''not found''"

definition gitHubRepository :: Repository where
  "gitHubRepository =
     \<lparr>DefaultVersion = ''v1.0.0'', ComponentsPath = ''components.yaml'',
      GetFile = (\<lambda>version path.
        if version = ''v1.0.0'' \<and> path = ''metadata.yaml''
        then Inr ''releaseSeries: [{major: 1, minor: 0, contract: v1beta1}]''
        else if version = ''v1.0.0'' \<and> path = ''components.yaml''
        then Inr ''kind: Deployment''
        else Inl (ErrorString ''release not found''))\<rparr>"

definition W0 :: "(unit, unit, unit) cluster" where
  "W0 = \<lparr>GetSecret = (\<lambda>key. Inl notFound),
         GetConfigMap = (\<lambda>key. Inl notFound),
         GetClusterctlProvider = (\<lambda>key. Inl notFound),
         NewMemoryReader = (),
         reader_Init = (\<lambda>r config. Inr r),
         reader_Set = (\<lambda>r k v. r),
         reader_AddProvider = (\<lambda>r name t url. Inr r),
         configclient_New = (\<lambda>r. Inr ()),
         Providers_Get = (\<lambda>c name t. Inr ()),
         ManifestLabel = (\<lambda>p. ''sample''),
         NewGitHubRepository = (\<lambda>p c. Inr gitHubRepository),
         NewComponents = (\<lambda>i. Inr \<lparr>comp_Version = opt_Version (in_Options i),
                                      comp_Objs = [in_RawYaml i]\<rparr>),
         AlterComponents = (\<lambda>comps prov. Inr comps),
         EnsureCustomResourceDefinitions = None,
         Install = (\<lambda>comps. None),
         Delete = (\<lambda>opts. None)\<rparr>"

definition provider0 :: GenericProvider where
  "provider0 =
     \<lparr>Kind = InfrastructureProvider, Name = ''aws'', Namespace = ''capa-system'',
      Generation = 1,
      Spec = \<lparr>Version = None, SecretName = None, FetchConfig = None\<rparr>,
      Status = \<lparr>Contract = None, ObservedGeneration = 0, Conditions = Map.empty\<rparr>\<rparr>"

text \<open>Sample inputs: installed records, and the reconciler after a fetch.\<close>

definition release :: "nat \<Rightarrow> nat \<Rightarrow> nat \<Rightarrow> SemVer" where
  "release ma mi pa =
     \<lparr>sv_Major = ma, sv_Minor = mi, sv_Patch = pa, sv_PreRelease = [], sv_BuildMetadata = []\<rparr>"

definition rendered :: "string \<Rightarrow> Components" where
  "rendered v = \<lparr>comp_Version = v, comp_Objs = [''kind: Deployment'']\<rparr>"

definition installedRecord :: "string \<Rightarrow> ClusterctlProvider" where
  "installedRecord v =
     \<lparr>cp_Name = ''infrastructure-aws'', cp_Namespace = ''capa-system'',
      cp_Type = ''InfrastructureProvider'', cp_ProviderName = ''aws'', cp_Version = v\<rparr>"

definition withRecord :: "string \<Rightarrow> (unit, unit, unit) cluster" where
  "withRecord v =
     W0\<lparr>GetClusterctlProvider :=
          (\<lambda>key. if key = clusterctlProviderName provider0 then Inr (installedRecord v)
                  else Inl notFound)\<rparr>"

definition fetched :: "string \<Rightarrow> (unit, unit) phaseReconciler" where
  "fetched v =
     (newReconcilePhases provider0)
       \<lparr>options := \<lparr>TargetNamespace = ''capa-system'', SkipTemplateProcess = False,
                    opt_Version = v\<rparr>,
        components := Some (rendered v)\<rparr>"

text \<open>Sample inputs: an installer that fails, and provider specs for admission.\<close>

definition failingInstall :: "error \<Rightarrow> (unit, unit, unit) cluster" where
  "failingInstall err = W0\<lparr>Install := (\<lambda>comps. Some err)\<rparr>"

definition conflictSpec :: wProviderSpec where
  "conflictSpec =
     \<lparr>wVersion = ''v1.0.0'',
      wFetchConfig = Some \<lparr>Selector = Some \<lparr>MatchLabels = Some [''app'' \<mapsto> ''capa'']\<rparr>\<rparr>\<rparr>"

definition versionSpec :: "string \<Rightarrow> wProviderSpec" where
  "versionSpec v = \<lparr>wVersion = v, wFetchConfig = None\<rparr>"

text \<open>
  Two notions for stating what \<open>configmapRepository\<close> does: the value of the version
  label of a ConfigMap, if it has that label, and the version the function derives.
\<close>

definition versionLabel :: "operatorv1 \<Rightarrow> ConfigMap \<Rightarrow> string option" where
  "versionLabel K cm =
     (case cm_Labels cm of None \<Rightarrow> None | Some labels \<Rightarrow> labels (ConfigMapVersionLabelName K))"

definition derivedVersion :: "operatorv1 \<Rightarrow> ConfigMap \<Rightarrow> string" where
  "derivedVersion K cm = (case versionLabel K cm of None \<Rightarrow> cm_Name cm | Some ver \<Rightarrow> ver)"

definition isGetFile :: "call \<Rightarrow> bool" where
  "isGetFile c = (case c of CallGetFile version path \<Rightarrow> True | _ \<Rightarrow> False)"

text \<open>Sample inputs: ConfigMaps, and a cluster that holds one.\<close>

definition configMap0 :: "string \<Rightarrow> (string \<rightharpoonup> string) option \<Rightarrow> (string \<rightharpoonup> string) \<Rightarrow> ConfigMap" where
  "configMap0 name labels data =
     \<lparr>cm_Namespace = ''capa-system'', cm_Name = name, cm_Labels = labels, cm_Data = data\<rparr>"

definition withConfigMap :: "ConfigMap \<Rightarrow> (unit, unit, unit) cluster" where
  "withConfigMap cm =
     W0\<lparr>GetConfigMap :=
          (\<lambda>key. if key = \<lparr>key_Namespace = cm_Namespace cm, key_Name = cm_Name cm\<rparr>
                  then Inr cm else Inl notFound)\<rparr>"

definition refTo :: "ConfigMap \<Rightarrow> ObjectReference" where
  "refTo cm = \<lparr>ref_Namespace = cm_Namespace cm, ref_Name = cm_Name cm\<rparr>"

definition bothFiles :: "string \<rightharpoonup> string" where
  "bothFiles =
     [''metadata'' \<mapsto> ''releaseSeries: [{major: 1, minor: 0, contract: v1beta1}]'',
      ''components'' \<mapsto> ''kind: Deployment'']"

text \<open>
  Sample inputs: a registry whose release \<open>v1.0.0\<close> has the given metadata document, a
  reconciler that has selected it with the target version \<open>v1.0.0\<close>, and a provider
  with a pinned version.
\<close>

definition registryWith :: "string \<Rightarrow> Repository" where
  "registryWith doc =
     gitHubRepository\<lparr>GetFile := (\<lambda>version path.
        if version = ''v1.0.0'' \<and> path = ''metadata.yaml'' then Inr doc
        else Inl (ErrorString ''release not found''))\<rparr>"

definition selected :: "string \<Rightarrow> (unit, unit) phaseReconciler" where
  "selected doc =
     (newReconcilePhases provider0)
       \<lparr>repo := Some (registryWith doc),
        options := \<lparr>TargetNamespace = ''capa-system'', SkipTemplateProcess = False,
                    opt_Version = ''v1.0.0''\<rparr>\<rparr>"

definition pinned :: "string \<Rightarrow> GenericProvider" where
  "pinned v = provider0\<lparr>Spec := (Spec provider0)\<lparr>Version := Some v\<rparr>\<rparr>"

section \<open>Facts about the sample environment\<close>

lemmas sampleParse_defs =
  sampleParseSemantic_def parseUint_def isDigit_def parseExtra_def release_def

lemma parse_v090: "ParseSemantic L0 ''v0.9.0'' = Inr (release 0 9 0)"
  by (simp add: L0_def sampleParse_defs)

lemma parse_v100: "ParseSemantic L0 ''v1.0.0'' = Inr (release 1 0 0)"
  by (simp add: L0_def sampleParse_defs)

lemma parse_v110: "ParseSemantic L0 ''v1.1.0'' = Inr (release 1 1 0)"
  by (simp add: L0_def sampleParse_defs)

lemma release_less:
  "LessThan L0 (release a b c) (release a' b' c')
     = (a < a' \<or> a = a' \<and> (b < b' \<or> b = b' \<and> c < c'))"
  by (auto simp: L0_def sampleLessThan_def release_def)

lemma withRecord_Get:
  "GetClusterctlProvider (withRecord v) (clusterctlProviderName provider0) = Inr (installedRecord v)"
  by (simp add: withRecord_def)

lemma installedRecord_Version: "cp_Version (installedRecord v) = v"
  by (simp add: installedRecord_def)

lemma fetched_components: "components (fetched v) = Some (rendered v)"
  by (simp add: fetched_def)

lemma rendered_Version: "comp_Version (rendered v) = v"
  by (simp add: rendered_def)

section \<open>Upgrade detection: when pre-deletion is required\<close>

text \<open>
  C1. \<open>updateRequiresPreDeletion\<close> returns \<open>false\<close> (and no error) when the read of the
  provider record reports not-found; it returns \<open>false\<close> when the record is there and its
  version is empty; and when the record's version and the version of the fetched
  components both parse, it returns whether the recorded version is less than the new
  one, so \<open>true\<close> exactly for an upgrade.
\<close>

theorem updateRequiresPreDeletion_upgrade_only:
  "(GetClusterctlProvider W (clusterctlProviderName prov) = Inl err \<and> IsNotFound L err
      \<longrightarrow> updateRequiresPreDeletion L W s prov = Return (False, None, s))
   \<and> (GetClusterctlProvider W (clusterctlProviderName prov) = Inr found \<and> cp_Version found = []
      \<longrightarrow> updateRequiresPreDeletion L W s prov
            = Return (False, None, s\<lparr>clusterctlProvider := found\<rparr>))
   \<and> (GetClusterctlProvider W (clusterctlProviderName prov) = Inr found
        \<and> cp_Version found \<noteq> [] \<and> components s = Some comps
        \<and> ParseSemantic L (cp_Version found) = Inr currentVersion
        \<and> ParseSemantic L (comp_Version comps) = Inr nextVersion
      \<longrightarrow> updateRequiresPreDeletion L W s prov
            = Return (LessThan L currentVersion nextVersion, None,
                      s\<lparr>clusterctlProvider := found\<rparr>))"
  by (simp add: updateRequiresPreDeletion_def)

text \<open>
  On the sample: no record; a record with no version; recorded \<open>v0.9.0\<close>, \<open>v1.0.0\<close> and
  \<open>v1.1.0\<close> against the new version \<open>v1.0.0\<close>.
\<close>

theorem updateRequiresPreDeletion_upgrade_only_witness:
  "updateRequiresPreDeletion L0 W0 (fetched ''v1.0.0'') provider0
     = Return (False, None, fetched ''v1.0.0'')
   \<and> updateRequiresPreDeletion L0 (withRecord []) (fetched ''v1.0.0'') provider0
     = Return (False, None, (fetched ''v1.0.0'')\<lparr>clusterctlProvider := installedRecord []\<rparr>)
   \<and> updateRequiresPreDeletion L0 (withRecord ''v0.9.0'') (fetched ''v1.0.0'') provider0
     = Return (True, None, (fetched ''v1.0.0'')\<lparr>clusterctlProvider := installedRecord ''v0.9.0''\<rparr>)
   \<and> updateRequiresPreDeletion L0 (withRecord ''v1.0.0'') (fetched ''v1.0.0'') provider0
     = Return (False, None, (fetched ''v1.0.0'')\<lparr>clusterctlProvider := installedRecord ''v1.0.0''\<rparr>)
   \<and> updateRequiresPreDeletion L0 (withRecord ''v1.1.0'') (fetched ''v1.0.0'') provider0
     = Return (False, None, (fetched ''v1.0.0'')\<lparr>clusterctlProvider := installedRecord ''v1.1.0''\<rparr>)"
proof -
  have absent: "GetClusterctlProvider W0 (clusterctlProviderName provider0) = Inl notFound
                \<and> IsNotFound L0 notFound"
    by (simp add: W0_def L0_def notFound_def sampleIsNotFound_def)
  note inst = updateRequiresPreDeletion_upgrade_only
    [where L = L0 and prov = provider0 and s = "fetched ''v1.0.0''"
       and comps = "rendered ''v1.0.0''" and nextVersion = "release 1 0 0"]
  have c1: "updateRequiresPreDeletion L0 W0 (fetched ''v1.0.0'') provider0
     = Return (False, None, fetched ''v1.0.0'')"
    using inst [where W = W0 and err = notFound] absent by blast
  have c2: "updateRequiresPreDeletion L0 (withRecord []) (fetched ''v1.0.0'') provider0
     = Return (False, None, (fetched ''v1.0.0'')\<lparr>clusterctlProvider := installedRecord []\<rparr>)"
    using inst [where W = "withRecord []" and found = "installedRecord []"]
    by (simp add: withRecord_Get installedRecord_Version)
  have c3: "updateRequiresPreDeletion L0 (withRecord ''v0.9.0'') (fetched ''v1.0.0'') provider0
     = Return (True, None, (fetched ''v1.0.0'')\<lparr>clusterctlProvider := installedRecord ''v0.9.0''\<rparr>)"
    using inst [where W = "withRecord ''v0.9.0''" and found = "installedRecord ''v0.9.0''"
                  and currentVersion = "release 0 9 0"]
    by (simp add: withRecord_Get installedRecord_Version fetched_components rendered_Version
          parse_v090 parse_v100 release_less)
  have c4: "updateRequiresPreDeletion L0 (withRecord ''v1.0.0'') (fetched ''v1.0.0'') provider0
     = Return (False, None, (fetched ''v1.0.0'')\<lparr>clusterctlProvider := installedRecord ''v1.0.0''\<rparr>)"
    using inst [where W = "withRecord ''v1.0.0''" and found = "installedRecord ''v1.0.0''"
                  and currentVersion = "release 1 0 0"]
    by (simp add: withRecord_Get installedRecord_Version fetched_components rendered_Version
          parse_v100 release_less)
  have c5: "updateRequiresPreDeletion L0 (withRecord ''v1.1.0'') (fetched ''v1.0.0'') provider0
     = Return (False, None, (fetched ''v1.0.0'')\<lparr>clusterctlProvider := installedRecord ''v1.1.0''\<rparr>)"
    using inst [where W = "withRecord ''v1.1.0''" and found = "installedRecord ''v1.1.0''"
                  and currentVersion = "release 1 1 0"]
    by (simp add: withRecord_Get installedRecord_Version fetched_components rendered_Version
          parse_v110 parse_v100 release_less)
  from c1 c2 c3 c4 c5 show ?thesis by blast
qed

section \<open>The delete phase: identity and exclusions\<close>

text \<open>
  C4. \<open>delete\<close> always returns, and issues exactly one \<open>Delete\<close> call. The identity it
  passes has the kind-prefixed name, the namespace, the type and the name of the
  provider, and the version of the record at hand, or the target version
  \<open>options.Version\<close> of the pass when that record has no version. The call excludes the
  namespace and the CRDs from deletion. The result is the deleter's error, wrapped.
\<close>

theorem delete_identity_and_exclusions:
  "delete K W p =
     (let opts =
        \<lparr>del_Provider =
           \<lparr>cp_Name = key_Name (clusterctlProviderName (provider p)),
            cp_Namespace = Namespace (provider p),
            cp_Type = ClusterctlProviderType K (provider p),
            cp_ProviderName = Name (provider p),
            cp_Version = (if cp_Version (clusterctlProvider p) = [] then opt_Version (options p)
                          else cp_Version (clusterctlProvider p))\<rparr>,
         IncludeNamespace = False, IncludeCRDs = False\<rparr>
      in Return (wrapPhaseError (Delete W opts) (OldComponentsDeletionErrorReason K)
                   (ProviderInstalledCondition K),
                 p\<lparr>clusterctlProvider := del_Provider opts,
                   calls := calls p @ [CallDelete opts]\<rparr>))"
  by (cases "clusterctlProvider p") (simp add: delete_def Let_def)

text \<open>
  On the sample: a reconciler with no record deletes under the target version
  \<open>v1.0.0\<close>; one that has read a record of \<open>v0.9.0\<close> deletes that version.
\<close>

theorem delete_identity_and_exclusions_witness:
  "delete K0 W0 (fetched ''v1.0.0'')
     = Return (None,
         (fetched ''v1.0.0'')
           \<lparr>clusterctlProvider := installedRecord ''v1.0.0'',
            calls := [CallDelete \<lparr>del_Provider = installedRecord ''v1.0.0'',
                                 IncludeNamespace = False, IncludeCRDs = False\<rparr>]\<rparr>)
   \<and> delete K0 W0 ((fetched ''v1.0.0'')\<lparr>clusterctlProvider := installedRecord ''v0.9.0''\<rparr>)
     = Return (None,
         (fetched ''v1.0.0'')
           \<lparr>clusterctlProvider := installedRecord ''v0.9.0'',
            calls := [CallDelete \<lparr>del_Provider = installedRecord ''v0.9.0'',
                                 IncludeNamespace = False, IncludeCRDs = False\<rparr>]\<rparr>)"
  using delete_identity_and_exclusions [of K0 W0 "fetched ''v1.0.0''"]
    delete_identity_and_exclusions
      [of K0 W0 "(fetched ''v1.0.0'')\<lparr>clusterctlProvider := installedRecord ''v0.9.0''\<rparr>"]
  by (simp add: Let_def fetched_def newReconcilePhases_def provider0_def installedRecord_def
        clusterctlProviderName_def K0_def W0_def wrapPhaseError_def)

section \<open>The install phase: classification of a failure\<close>

text \<open>
  C8. When the installer returns an error, \<open>install\<close> returns a phase error for the
  provider-installed condition that wraps it; its reason is the timeout reason exactly
  when the error is \<open>wait.ErrWaitTimeout\<close>, and the reason \<open>Install failed\<close> for every
  other error.
\<close>

theorem install_failure_reason:
  "Install W (components p) = Some err \<Longrightarrow>
   \<exists>e. install K W p = Return (Some e, p\<lparr>calls := calls p @ [CallInstall (components p)]\<rparr>)
     \<and> e = PhaseError (if err = ErrWaitTimeout
                        then ''Timedout waiting for deployment to become ready''
                        else ''Install failed'')
                       (ProviderInstalledCondition K) ConditionSeverityWarning err
     \<and> (Reason e = ''Timedout waiting for deployment to become ready'' \<longleftrightarrow> err = ErrWaitTimeout)
     \<and> (Reason e = ''Install failed'' \<longleftrightarrow> err \<noteq> ErrWaitTimeout)
     \<and> Type e = ProviderInstalledCondition K \<and> Err e = err"
  by (simp add: install_def wrapPhaseError_def)

text \<open>On the sample: an installer that times out, and one that fails otherwise.\<close>

theorem install_failure_reason_witness:
  "(\<exists>e. install K0 (failingInstall ErrWaitTimeout) (fetched ''v1.0.0'')
          = Return (Some e, (fetched ''v1.0.0'')\<lparr>calls := [CallInstall (Some (rendered ''v1.0.0''))]\<rparr>)
        \<and> Reason e = ''Timedout waiting for deployment to become ready''
        \<and> Type e = ''ProviderInstalledCondition'' \<and> Err e = ErrWaitTimeout)
   \<and> (\<exists>e. install K0 (failingInstall (ErrorString ''no such image'')) (fetched ''v1.0.0'')
          = Return (Some e, (fetched ''v1.0.0'')\<lparr>calls := [CallInstall (Some (rendered ''v1.0.0''))]\<rparr>)
        \<and> Reason e = ''Install failed''
        \<and> Type e = ''ProviderInstalledCondition'' \<and> Err e = ErrorString ''no such image'')"
proof -
  have f: "Install (failingInstall err) (components (fetched ''v1.0.0'')) = Some err" for err
    by (simp add: failingInstall_def)
  have c: "components (fetched ''v1.0.0'') = Some (rendered ''v1.0.0'')"
      "calls (fetched ''v1.0.0'') = []"
    by (simp_all add: fetched_def newReconcilePhases_def)
  have k: "ProviderInstalledCondition K0 = ''ProviderInstalledCondition''"
    by (simp add: K0_def)
  from install_failure_reason [OF f [of ErrWaitTimeout], of K0]
       install_failure_reason [OF f [of "ErrorString ''no such image''"], of K0]
  show ?thesis by (simp add: c k)
qed

section \<open>Admission\<close>

text \<open>
  C7. A spec whose fetch configuration has a selector with a match-labels map is
  rejected, whatever its other fields: the error list is not empty, and its last entry
  is the invalid-field error for the path \<open>spec.fetchConfig\<close>.
\<close>

theorem selector_with_matchLabels_rejected:
  "wFetchConfig spec = Some fc \<Longrightarrow> Selector fc = Some sel \<Longrightarrow> MatchLabels sel = Some ml \<Longrightarrow>
   validateProviderSpec L spec \<noteq> []
   \<and> last (validateProviderSpec L spec)
       = Invalid (Child (NewPath ''spec'') ''fetchConfig'') (wVersion spec)
           ''can't use selector and matchlabels, only one option is allowed''
   \<and> list_ex (\<lambda>e. fe_Type e = ErrorTypeInvalid \<and> fe_Field e = ''spec.fetchConfig'')
         (validateProviderSpec L spec)"
  by (simp add: validateProviderSpec_def Let_def Invalid_def Child_def NewPath_def)

text \<open>On the sample: the spec with a valid version and both selection mechanisms.\<close>

theorem selector_with_matchLabels_rejected_witness:
  "validateProviderSpec L0 conflictSpec
     = [\<lparr>fe_Type = ErrorTypeInvalid, fe_Field = ''spec.fetchConfig'', fe_BadValue = ''v1.0.0'',
         fe_Detail = ''can't use selector and matchlabels, only one option is allowed''\<rparr>]"
proof -
  have one: "length (validateProviderSpec L0 conflictSpec) = 1"
    by (simp add: validateProviderSpec_def conflictSpec_def Let_def parse_v100)
  have "last (validateProviderSpec L0 conflictSpec)
       = Invalid (Child (NewPath ''spec'') ''fetchConfig'') (wVersion conflictSpec)
           ''can't use selector and matchlabels, only one option is allowed''"
    using selector_with_matchLabels_rejected
      [of conflictSpec "\<lparr>Selector = Some \<lparr>MatchLabels = Some [''app'' \<mapsto> ''capa'']\<rparr>\<rparr>"
          "\<lparr>MatchLabels = Some [''app'' \<mapsto> ''capa'']\<rparr>" "[''app'' \<mapsto> ''capa'']" L0]
    by (simp add: conflictSpec_def)
  then have l: "last (validateProviderSpec L0 conflictSpec)
       = \<lparr>fe_Type = ErrorTypeInvalid, fe_Field = ''spec.fetchConfig'', fe_BadValue = ''v1.0.0'',
         fe_Detail = ''can't use selector and matchlabels, only one option is allowed''\<rparr>"
    by (simp add: Invalid_def Child_def NewPath_def conflictSpec_def)
  from one obtain x where x: "validateProviderSpec L0 conflictSpec = [x]"
    by (cases "validateProviderSpec L0 conflictSpec") auto
  with l show ?thesis by simp
qed

text \<open>
  C10. \<open>validateProviderSpec\<close> reports an invalid \<open>spec.version\<close> if and only if the
  version is not empty and does not parse; the report is then the first entry of the
  list. An empty version is never reported.
\<close>

theorem version_error_iff_unparsable:
  "(list_ex (\<lambda>e. fe_Type e = ErrorTypeInvalid \<and> fe_Field e = ''spec.version'')
        (validateProviderSpec L spec)
      \<longleftrightarrow> wVersion spec \<noteq> [] \<and> (\<exists>err. ParseSemantic L (wVersion spec) = Inl err))
   \<and> (\<forall>err. wVersion spec \<noteq> [] \<and> ParseSemantic L (wVersion spec) = Inl err \<longrightarrow>
         hd (validateProviderSpec L spec)
           = Invalid (Child (NewPath ''spec'') ''version'') (wVersion spec)
               (''invalid semantic version: '' @ Error L err))
   \<and> (wVersion spec = [] \<longrightarrow>
         \<not> list_ex (\<lambda>e. fe_Field e = ''spec.version'') (validateProviderSpec L spec))"
  by (auto simp: validateProviderSpec_def Let_def Invalid_def Child_def NewPath_def
           split: sum.splits option.splits)

text \<open>
  On the sample: the empty string does not parse and is accepted; \<open>latest\<close> does not
  parse and is reported; \<open>v1.0.0\<close> parses and is accepted.
\<close>

lemma parse_empty: "ParseSemantic L0 [] = Inl (ErrorString ''illegal version string '')"
  by (simp add: L0_def sampleParse_defs)

lemma parse_latest: "ParseSemantic L0 ''latest'' = Inl (ErrorString ''illegal version string latest'')"
  by (simp add: L0_def sampleParse_defs)

theorem version_error_iff_unparsable_witness:
  "ParseSemantic L0 [] = Inl (ErrorString ''illegal version string '')
   \<and> \<not> list_ex (\<lambda>e. fe_Field e = ''spec.version'') (validateProviderSpec L0 (versionSpec []))
   \<and> ParseSemantic L0 ''latest'' = Inl (ErrorString ''illegal version string latest'')
   \<and> hd (validateProviderSpec L0 (versionSpec ''latest''))
       = \<lparr>fe_Type = ErrorTypeInvalid, fe_Field = ''spec.version'', fe_BadValue = ''latest'',
          fe_Detail = ''invalid semantic version: illegal version string latest''\<rparr>
   \<and> list_ex (\<lambda>e. fe_Type e = ErrorTypeInvalid \<and> fe_Field e = ''spec.version'')
        (validateProviderSpec L0 (versionSpec ''latest''))
   \<and> \<not> list_ex (\<lambda>e. fe_Type e = ErrorTypeInvalid \<and> fe_Field e = ''spec.version'')
        (validateProviderSpec L0 (versionSpec ''v1.0.0''))"
proof -
  have v: "wVersion (versionSpec v) = v" for v by (simp add: versionSpec_def)
  note e = version_error_iff_unparsable [of L0 "versionSpec []"]
  note l = version_error_iff_unparsable [of L0 "versionSpec ''latest''"]
  note r = version_error_iff_unparsable [of L0 "versionSpec ''v1.0.0''"]
  have a: "\<not> list_ex (\<lambda>e. fe_Field e = ''spec.version'') (validateProviderSpec L0 (versionSpec []))"
    using e by (simp add: v)
  have b: "hd (validateProviderSpec L0 (versionSpec ''latest''))
       = \<lparr>fe_Type = ErrorTypeInvalid, fe_Field = ''spec.version'', fe_BadValue = ''latest'',
          fe_Detail = ''invalid semantic version: illegal version string latest''\<rparr>"
    using l by (simp add: v parse_latest Invalid_def Child_def NewPath_def)
  have c: "list_ex (\<lambda>e. fe_Type e = ErrorTypeInvalid \<and> fe_Field e = ''spec.version'')
        (validateProviderSpec L0 (versionSpec ''latest''))"
    using l by (simp add: v parse_latest)
  have d: "\<not> list_ex (\<lambda>e. fe_Type e = ErrorTypeInvalid \<and> fe_Field e = ''spec.version'')
        (validateProviderSpec L0 (versionSpec ''v1.0.0''))"
    using r by (simp add: v parse_v100)
  from a b c d parse_empty parse_latest show ?thesis by blast
qed

text \<open>
  C9. The validators of \<open>BootstrapProviderWebhook\<close> accept every object, with no warning
  and no error: that of create, of update and of delete. So a spec that
  \<open>validateProviderSpec\<close> rejects (it has both selection mechanisms) passes them.
\<close>

theorem bootstrap_webhook_accepts_everything:
  "ValidateCreate ctx obj = ([], None)
   \<and> ValidateUpdate ctx oldObj newObj = ([], None)
   \<and> ValidateDelete ctx obj = ([], None)
   \<and> validateProviderSpec L conflictSpec \<noteq> []
   \<and> ValidateCreate ctx conflictSpec = ([], None)
   \<and> ValidateUpdate ctx oldSpec conflictSpec = ([], None)"
  by (simp add: ValidateCreate_def ValidateUpdate_def ValidateDelete_def
        validateProviderSpec_def conflictSpec_def Let_def)

section \<open>The repository built from a ConfigMap\<close>

text \<open>
  What \<open>configmapRepository\<close> returns once the ConfigMap has been read: the checks in
  the order of the source (version, then \<open>metadata\<close>, then \<open>components\<close>) and the
  repository built when all pass.
\<close>

lemma configmapRepository_found:
  assumes "GetConfigMap W \<lparr>key_Namespace = ref_Namespace ref, key_Name = ref_Name ref\<rparr> = Inr cm"
  shows "configmapRepository K L W (Some ref) =
     (case ParseSemantic L (derivedVersion K cm) of
        Inl err \<Rightarrow>
          Inl (ErrorString (''ConfigMap '' @ cm_Namespace cm @ ''/'' @ cm_Name cm
                 @ '' has invalid version:'' @ derivedVersion K cm @ '' (''
                 @ (case versionLabel K cm of
                      None \<Rightarrow> ''from the Name''
                    | Some ver \<Rightarrow> ''from the Label '' @ ConfigMapVersionLabelName K)
                 @ '')''))
      | Inr parsed \<Rightarrow>
          (case cm_Data cm ''metadata'' of
             None \<Rightarrow>
               Inl (ErrorString (''ConfigMap '' @ cm_Namespace cm @ ''/'' @ cm_Name cm
                      @ '' has no metadata''))
           | Some metadata \<Rightarrow>
               (case cm_Data cm ''components'' of
                  None \<Rightarrow>
                    Inl (ErrorString (''ConfigMap '' @ cm_Namespace cm @ ''/'' @ cm_Name cm
                           @ '' has no components''))
                | Some comps \<Rightarrow>
                    Inr (WithFile L
                           (WithFile L (WithPaths L (NewMemoryRepository L) [] ''components.yaml'')
                              (derivedVersion K cm) ''metadata.yaml'' metadata)
                           (derivedVersion K cm)
                           (mem_ComponentsPath L
                              (WithFile L
                                 (WithPaths L (NewMemoryRepository L) [] ''components.yaml'')
                                 (derivedVersion K cm) ''metadata.yaml'' metadata))
                           comps))))"
  using assms
  by (simp add: configmapRepository_def derivedVersion_def versionLabel_def Let_def
        metadataFile_def
      split: option.splits sum.splits)

lemma withConfigMap_Get:
  "GetConfigMap (withConfigMap cm)
     \<lparr>key_Namespace = ref_Namespace (refTo cm), key_Name = ref_Name (refTo cm)\<rparr> = Inr cm"
  by (simp add: withConfigMap_def refTo_def)

lemma derivedVersion_no_labels: "derivedVersion K (configMap0 name None data) = name"
  by (simp add: derivedVersion_def versionLabel_def configMap0_def)

lemma parse_v123: "ParseSemantic L0 ''v1.2.3'' = Inr (release 1 2 3)"
  by (simp add: L0_def sampleParse_defs)

lemma parse_v130: "ParseSemantic L0 ''v1.3.0'' = Inr (release 1 3 0)"
  by (simp add: L0_def sampleParse_defs)

lemma parse_foo: "ParseSemantic L0 ''foo'' = Inl (ErrorString ''illegal version string foo'')"
  by (simp add: L0_def sampleParse_defs)

lemma versionLabel_no_labels: "versionLabel K (configMap0 name None data) = None"
  by (simp add: versionLabel_def configMap0_def)

lemma versionLabel_labelled:
  "versionLabel K0 (configMap0 name (Some [''cluster.x-k8s.io/version'' \<mapsto> ver]) data) = Some ver"
  by (simp add: versionLabel_def configMap0_def K0_def)

lemma derivedVersion_labelled:
  "derivedVersion K0 (configMap0 name (Some [''cluster.x-k8s.io/version'' \<mapsto> ver]) data) = ver"
  by (simp add: derivedVersion_def versionLabel_labelled)

lemma parse_v13: "ParseSemantic L0 ''1.3'' = Inl (ErrorString ''illegal version string 1.3'')"
  by (simp add: L0_def sampleParse_defs)

text \<open>
  C5, as the code has it. The version is checked before the keys. So for a ConfigMap
  whose version (label or name) parses: without the key \<open>metadata\<close> the construction
  fails with the error \<open>has no metadata\<close>, whether or not \<open>components\<close> is there; with
  \<open>metadata\<close> and without \<open>components\<close> it fails with \<open>has no components\<close>.
\<close>

theorem configmapRepository_missing_key:
  assumes "GetConfigMap W \<lparr>key_Namespace = ref_Namespace ref, key_Name = ref_Name ref\<rparr> = Inr cm"
      and "ParseSemantic L (derivedVersion K cm) = Inr v"
  shows "(cm_Data cm ''metadata'' = None \<longrightarrow>
            configmapRepository K L W (Some ref)
              = Inl (ErrorString (''ConfigMap '' @ cm_Namespace cm @ ''/'' @ cm_Name cm
                       @ '' has no metadata'')))
       \<and> (cm_Data cm ''metadata'' \<noteq> None \<and> cm_Data cm ''components'' = None \<longrightarrow>
            configmapRepository K L W (Some ref)
              = Inl (ErrorString (''ConfigMap '' @ cm_Namespace cm @ ''/'' @ cm_Name cm
                       @ '' has no components'')))"
  using assms by (auto simp: configmapRepository_found)

text \<open>
  On the sample, a ConfigMap named \<open>v1.2.3\<close>: with \<open>components\<close> only, with no key at
  all, with \<open>metadata\<close> only.
\<close>

theorem configmapRepository_missing_key_witness:
  "configmapRepository K0 L0
      (withConfigMap (configMap0 ''v1.2.3'' None [''components'' \<mapsto> ''kind: Deployment'']))
      (Some (refTo (configMap0 ''v1.2.3'' None [''components'' \<mapsto> ''kind: Deployment''])))
     = Inl (ErrorString ''ConfigMap capa-system/v1.2.3 has no metadata'')
   \<and> configmapRepository K0 L0
      (withConfigMap (configMap0 ''v1.2.3'' None Map.empty))
      (Some (refTo (configMap0 ''v1.2.3'' None Map.empty)))
     = Inl (ErrorString ''ConfigMap capa-system/v1.2.3 has no metadata'')
   \<and> configmapRepository K0 L0
      (withConfigMap (configMap0 ''v1.2.3'' None [''metadata'' \<mapsto> ''releaseSeries: []'']))
      (Some (refTo (configMap0 ''v1.2.3'' None [''metadata'' \<mapsto> ''releaseSeries: []''])))
     = Inl (ErrorString ''ConfigMap capa-system/v1.2.3 has no components'')"
proof -
  have p: "ParseSemantic L0 (derivedVersion K0 (configMap0 ''v1.2.3'' None data)) = Inr (release 1 2 3)"
    for data by (simp add: derivedVersion_no_labels parse_v123)
  note a = configmapRepository_missing_key [OF withConfigMap_Get p, of "[''components'' \<mapsto> ''kind: Deployment'']"]
  note b = configmapRepository_missing_key [OF withConfigMap_Get p, of "Map.empty"]
  note c = configmapRepository_missing_key [OF withConfigMap_Get p, of "[''metadata'' \<mapsto> ''releaseSeries: []'']"]
  from a b c show ?thesis by (simp add: configMap0_def)
qed

text \<open>
  C5 as stated fails: a ConfigMap named \<open>foo\<close> has no \<open>metadata\<close> key, and the
  construction fails on its version; the error does not name \<open>metadata\<close>.
\<close>

theorem configmapRepository_missing_key_counterexample:
  "cm_Data (configMap0 ''foo'' None Map.empty) ''metadata'' = None
   \<and> configmapRepository K0 L0 (withConfigMap (configMap0 ''foo'' None Map.empty))
        (Some (refTo (configMap0 ''foo'' None Map.empty)))
       = Inl (ErrorString ''ConfigMap capa-system/foo has invalid version:foo (from the Name)'')
   \<and> \<not> sublist ''metadata'' ''ConfigMap capa-system/foo has invalid version:foo (from the Name)''"
proof -
  have "configmapRepository K0 L0 (withConfigMap (configMap0 ''foo'' None Map.empty))
        (Some (refTo (configMap0 ''foo'' None Map.empty)))
       = Inl (ErrorString ''ConfigMap capa-system/foo has invalid version:foo (from the Name)'')"
    by (simp add: configmapRepository_found [OF withConfigMap_Get] derivedVersion_no_labels
          parse_foo)
       (simp add: configMap0_def versionLabel_def)
  moreover have "\<not> sublist ''metadata'' ''ConfigMap capa-system/foo has invalid version:foo (from the Name)''"
    by (simp add: sublist_Cons_right)
  ultimately show ?thesis by (simp add: configMap0_def)
qed

text \<open>
  C6. Without a version label the version is the ConfigMap's name, and an invalid one
  is reported \<open>from the Name\<close>; with the label the version is the label's value, and an
  invalid one is reported \<open>from the Label\<close> followed by the label's name. When the
  version parses and both keys are there, the repository built holds the two files
  under that version, and its \<open>DefaultVersion()\<close> is the derived version. The source
  builds the repository with \<open>WithPaths\<close> and \<open>WithFile\<close> only, so the last part is that
  of the memory repository as the spec describes it.
\<close>

theorem configmapRepository_version_source:
  assumes "GetConfigMap W \<lparr>key_Namespace = ref_Namespace ref, key_Name = ref_Name ref\<rparr> = Inr cm"
  shows "(versionLabel K cm = None \<longrightarrow>
            derivedVersion K cm = cm_Name cm
            \<and> (\<forall>err. ParseSemantic L (cm_Name cm) = Inl err \<longrightarrow>
                  configmapRepository K L W (Some ref)
                    = Inl (ErrorString (''ConfigMap '' @ cm_Namespace cm @ ''/'' @ cm_Name cm
                             @ '' has invalid version:'' @ cm_Name cm
                             @ '' (from the Name)''))))
       \<and> (\<forall>ver. versionLabel K cm = Some ver \<longrightarrow>
            derivedVersion K cm = ver
            \<and> (\<forall>err. ParseSemantic L ver = Inl err \<longrightarrow>
                  configmapRepository K L W (Some ref)
                    = Inl (ErrorString (''ConfigMap '' @ cm_Namespace cm @ ''/'' @ cm_Name cm
                             @ '' has invalid version:'' @ ver
                             @ '' (from the Label '' @ ConfigMapVersionLabelName K @ '')''))))
       \<and> (\<forall>v md comps.
            specMemoryRepository L
            \<and> ParseSemantic L (derivedVersion K cm) = Inr v
            \<and> cm_Data cm ''metadata'' = Some md \<and> cm_Data cm ''components'' = Some comps \<longrightarrow>
            (\<exists>mr. configmapRepository K L W (Some ref) = Inr mr
               \<and> DefaultVersion (asRepository L mr) = derivedVersion K cm
               \<and> ComponentsPath (asRepository L mr) = ''components.yaml''
               \<and> GetFile (asRepository L mr) (derivedVersion K cm) ''metadata.yaml'' = Inr md
               \<and> GetFile (asRepository L mr) (derivedVersion K cm) ''components.yaml''
                   = Inr comps))"
proof -
  note found = configmapRepository_found [OF assms, of K L]
  have a: "versionLabel K cm = None \<longrightarrow>
            derivedVersion K cm = cm_Name cm
            \<and> (\<forall>err. ParseSemantic L (cm_Name cm) = Inl err \<longrightarrow>
                  configmapRepository K L W (Some ref)
                    = Inl (ErrorString (''ConfigMap '' @ cm_Namespace cm @ ''/'' @ cm_Name cm
                             @ '' has invalid version:'' @ cm_Name cm
                             @ '' (from the Name)'')))"
    by (simp add: found derivedVersion_def)
  have b: "\<forall>ver. versionLabel K cm = Some ver \<longrightarrow>
            derivedVersion K cm = ver
            \<and> (\<forall>err. ParseSemantic L ver = Inl err \<longrightarrow>
                  configmapRepository K L W (Some ref)
                    = Inl (ErrorString (''ConfigMap '' @ cm_Namespace cm @ ''/'' @ cm_Name cm
                             @ '' has invalid version:'' @ ver
                             @ '' (from the Label '' @ ConfigMapVersionLabelName K @ '')'')))"
    by (simp add: found derivedVersion_def)
  have c: "\<forall>v md comps.
            specMemoryRepository L
            \<and> ParseSemantic L (derivedVersion K cm) = Inr v
            \<and> cm_Data cm ''metadata'' = Some md \<and> cm_Data cm ''components'' = Some comps \<longrightarrow>
            (\<exists>mr. configmapRepository K L W (Some ref) = Inr mr
               \<and> DefaultVersion (asRepository L mr) = derivedVersion K cm
               \<and> ComponentsPath (asRepository L mr) = ''components.yaml''
               \<and> GetFile (asRepository L mr) (derivedVersion K cm) ''metadata.yaml'' = Inr md
               \<and> GetFile (asRepository L mr) (derivedVersion K cm) ''components.yaml''
                   = Inr comps)"
    by (simp add: found asRepository_def specMemoryRepository_def memNew_def memWithPaths_def
          memWithFile_def memGetFile_def vpath_def Let_def)
  from a b c show ?thesis by blast
qed

text \<open>
  On the sample: a ConfigMap named \<open>foo\<close> with no label, and with the label value
  \<open>1.3\<close>; a ConfigMap named \<open>v1.2.3\<close> with no label; a ConfigMap named \<open>foo\<close> with the
  label value \<open>v1.3.0\<close>.
\<close>

lemma L0_specMemoryRepository: "specMemoryRepository L0"
  by (simp add: specMemoryRepository_def L0_def)

theorem configmapRepository_version_source_witness:
  "configmapRepository K0 L0 (withConfigMap (configMap0 ''foo'' None bothFiles))
        (Some (refTo (configMap0 ''foo'' None bothFiles)))
     = Inl (ErrorString ''ConfigMap capa-system/foo has invalid version:foo (from the Name)'')
   \<and> configmapRepository K0 L0
        (withConfigMap (configMap0 ''foo'' (Some [''cluster.x-k8s.io/version'' \<mapsto> ''1.3'']) bothFiles))
        (Some (refTo (configMap0 ''foo'' (Some [''cluster.x-k8s.io/version'' \<mapsto> ''1.3'']) bothFiles)))
     = Inl (ErrorString
         ''ConfigMap capa-system/foo has invalid version:1.3 (from the Label cluster.x-k8s.io/version)'')
   \<and> (\<exists>mr. configmapRepository K0 L0 (withConfigMap (configMap0 ''v1.2.3'' None bothFiles))
          (Some (refTo (configMap0 ''v1.2.3'' None bothFiles))) = Inr mr
        \<and> DefaultVersion (asRepository L0 mr) = ''v1.2.3'')
   \<and> (\<exists>mr. configmapRepository K0 L0
        (withConfigMap (configMap0 ''foo'' (Some [''cluster.x-k8s.io/version'' \<mapsto> ''v1.3.0'']) bothFiles))
        (Some (refTo (configMap0 ''foo'' (Some [''cluster.x-k8s.io/version'' \<mapsto> ''v1.3.0'']) bothFiles)))
          = Inr mr
        \<and> DefaultVersion (asRepository L0 mr) = ''v1.3.0''
        \<and> GetFile (asRepository L0 mr) ''v1.3.0'' ''metadata.yaml''
            = Inr ''releaseSeries: [{major: 1, minor: 0, contract: v1beta1}]''
        \<and> GetFile (asRepository L0 mr) ''v1.3.0'' ''components.yaml'' = Inr ''kind: Deployment'')"
proof -
  let ?plain = "configMap0 ''foo'' None bothFiles"
  let ?bad = "configMap0 ''foo'' (Some [''cluster.x-k8s.io/version'' \<mapsto> ''1.3'']) bothFiles"
  let ?named = "configMap0 ''v1.2.3'' None bothFiles"
  let ?good = "configMap0 ''foo'' (Some [''cluster.x-k8s.io/version'' \<mapsto> ''v1.3.0'']) bothFiles"
  have n: "cm_Name (configMap0 name labels data) = name"
          "cm_Namespace (configMap0 name labels data) = ''capa-system''"
          "cm_Data (configMap0 name labels data) = data" for name labels data
    by (simp_all add: configMap0_def)
  have k: "ConfigMapVersionLabelName K0 = ''cluster.x-k8s.io/version''" by (simp add: K0_def)
  have a: "configmapRepository K0 L0 (withConfigMap ?plain) (Some (refTo ?plain))
     = Inl (ErrorString ''ConfigMap capa-system/foo has invalid version:foo (from the Name)'')"
    using configmapRepository_version_source [OF withConfigMap_Get, of K0 ?plain L0]
    by (simp add: versionLabel_no_labels n parse_foo)
  have b: "configmapRepository K0 L0 (withConfigMap ?bad) (Some (refTo ?bad))
     = Inl (ErrorString
         ''ConfigMap capa-system/foo has invalid version:1.3 (from the Label cluster.x-k8s.io/version)'')"
    using configmapRepository_version_source [OF withConfigMap_Get, of K0 ?bad L0]
    by (simp add: versionLabel_labelled n k parse_v13)
  have c: "\<exists>mr. configmapRepository K0 L0 (withConfigMap ?named) (Some (refTo ?named)) = Inr mr
        \<and> DefaultVersion (asRepository L0 mr) = ''v1.2.3''"
    using configmapRepository_version_source [OF withConfigMap_Get, of K0 ?named L0]
    by (simp add: L0_specMemoryRepository versionLabel_no_labels derivedVersion_no_labels n
          parse_v123 bothFiles_def) blast
  have d: "\<exists>mr. configmapRepository K0 L0 (withConfigMap ?good) (Some (refTo ?good)) = Inr mr
        \<and> DefaultVersion (asRepository L0 mr) = ''v1.3.0''
        \<and> GetFile (asRepository L0 mr) ''v1.3.0'' ''metadata.yaml''
            = Inr ''releaseSeries: [{major: 1, minor: 0, contract: v1beta1}]''
        \<and> GetFile (asRepository L0 mr) ''v1.3.0'' ''components.yaml'' = Inr ''kind: Deployment''"
    using configmapRepository_version_source [OF withConfigMap_Get, of K0 ?good L0]
    by (simp add: L0_specMemoryRepository versionLabel_labelled derivedVersion_labelled n
          parse_v130 bothFiles_def) blast
  from a b c d show ?thesis by blast
qed

section \<open>What the phases leave unchanged, and what \<open>load\<close> does\<close>

lemma delete_frame:
  "delete K W p = Return (e, p') \<Longrightarrow>
   contract p' = contract p \<and> options p' = options p \<and> repo p' = repo p
   \<and> filter isGetFile (calls p') = filter isGetFile (calls p)"
  by (auto simp: delete_def Let_def isGetFile_def)

lemma updateRequiresPreDeletion_frame:
  "updateRequiresPreDeletion L W p prov = Return (b, e, p') \<Longrightarrow>
   contract p' = contract p \<and> options p' = options p \<and> repo p' = repo p
   \<and> calls p' = calls p"
  by (auto simp: updateRequiresPreDeletion_def Let_def split: sum.splits if_splits option.splits)

lemma preInstall_frame:
  assumes "preInstall K L W p = Return (e, p')"
  shows "contract p' = contract p \<and> options p' = options p \<and> repo p' = repo p
   \<and> filter isGetFile (calls p') = filter isGetFile (calls p)"
proof (cases "EnsureCustomResourceDefinitions W")
  case (Some err)
  with assms show ?thesis by (auto simp: preInstall_def Let_def isGetFile_def)
next
  case None
  let ?p1 = "p\<lparr>calls := calls p @ [CallEnsureCustomResourceDefinitions]\<rparr>"
  from assms None obtain b err p2 where
    u: "updateRequiresPreDeletion L W ?p1 (provider ?p1) = Return (b, err, p2)"
    by (auto simp: preInstall_def Let_def split: outcome.splits)
  from updateRequiresPreDeletion_frame [OF u]
  have f2: "contract p2 = contract p" "options p2 = options p" "repo p2 = repo p"
      "filter isGetFile (calls p2) = filter isGetFile (calls p)"
    by (simp_all add: isGetFile_def)
  show ?thesis
  proof (cases "err \<noteq> None \<or> \<not> b")
    case True
    with assms None u have "p' = p2" by (auto simp: preInstall_def Let_def)
    with f2 show ?thesis by simp
  next
    case False
    with assms None u have "delete K W p2 = Return (e, p')"
      by (auto simp: preInstall_def Let_def)
    from delete_frame [OF this] f2 show ?thesis by simp
  qed
qed

lemma install_frame:
  "install K W p = Return (e, p') \<Longrightarrow>
   contract p' = contract p \<and> options p' = options p \<and> repo p' = repo p
   \<and> filter isGetFile (calls p') = filter isGetFile (calls p)"
  by (auto simp: install_def Let_def isGetFile_def split: option.splits if_splits outcome.splits)

lemma install_persists_contract:
  "install K W p = Return (None, p') \<Longrightarrow> Contract (Status (provider p')) = Some (contract p)"
  by (auto simp: install_def Let_def wrapPhaseError_def setTrueCondition_def
           split: option.splits if_splits outcome.splits)

lemma fetch_frame:
  "fetch K W p = Return (e, p') \<Longrightarrow> repo p = Some r \<Longrightarrow>
   contract p' = contract p \<and> options p' = options p \<and> repo p' = repo p
   \<and> calls p' = calls p @ [CallGetFile (opt_Version (options p)) (ComponentsPath r)]"
  by (auto simp: fetch_def Let_def split: option.splits sum.splits)

lemma fetch_frame_contract:
  "fetch K W p = Return (e, p') \<Longrightarrow> contract p' = contract p"
  by (auto simp: fetch_def Let_def split: option.splits sum.splits)

lemma validateRepoCAPIVersion_frame:
  "validateRepoCAPIVersion K L s prov = Return (e, s') \<Longrightarrow>
   repo s' = repo s \<and> options s' = options s \<and> provider s' = provider s
   \<and> calls s' = calls s @ [CallGetFile (opt_Version (options s)) metadataFile]"
  by (auto simp: validateRepoCAPIVersion_def Let_def split: option.splits sum.splits if_splits)

lemma validateRepoCAPIVersion_returns:
  "repo s = Some r \<Longrightarrow> \<exists>e s'. validateRepoCAPIVersion K L s prov = Return (e, s')"
  by (auto simp: validateRepoCAPIVersion_def Let_def split: option.splits sum.splits)

text \<open>
  \<open>load\<close> after its configuration steps: the repository is chosen, the target version
  computed, and \<open>validateRepoCAPIVersion\<close> called.
\<close>

lemma load_after_config:
  assumes "secretReader K W (provider p) = Inr reader"
      and "configclient_New W reader = Inr cc"
      and "Providers_Get W cc (Name (provider p)) (ClusterctlProviderType K (provider p)) = Inr pc"
  shows "load K L W p =
     (case (if (case FetchConfig (Spec (provider p)) of None \<Rightarrow> None | Some fc \<Rightarrow> ConfigMap fc)
               \<noteq> None
            then map_sum id (asRepository L)
                   (configmapRepository K L W
                      (case FetchConfig (Spec (provider p)) of
                         None \<Rightarrow> None | Some fc \<Rightarrow> ConfigMap fc))
            else NewGitHubRepository W pc cc) of
        Inl err \<Rightarrow>
          Return (wrapPhaseError (Some err) ''failed to load the repository''
                    (PreflightCheckCondition K),
                  p\<lparr>configClient := Some cc, providerConfig := Some pc, repo := None\<rparr>)
      | Inr r \<Rightarrow>
          (case validateRepoCAPIVersion K L
                  (p\<lparr>configClient := Some cc, providerConfig := Some pc, repo := Some r,
                     options := \<lparr>TargetNamespace = Namespace (provider p),
                                  SkipTemplateProcess = False,
                                  opt_Version = (case Version (Spec (provider p)) of
                                                   None \<Rightarrow> DefaultVersion r | Some v \<Rightarrow> v)\<rparr>\<rparr>)
                  (provider p) of
             Panic \<Rightarrow> Panic
           | Return (err, p6) \<Rightarrow>
               Return (wrapPhaseError err (CAPIVersionIncompatibilityReason K)
                         (PreflightCheckCondition K), p6)))"
  unfolding load_def Let_def using assms
  by (simp split: sum.split option.split)

text \<open>
  \<open>load\<close> from a fresh reconciler: when it ends with a repository in place, it has
  computed the target version and called \<open>validateRepoCAPIVersion\<close> on the state below.
\<close>

lemma load_reached:
  assumes l: "load K L W p = Return (e, p')" and fresh: "repo p = None"
      and sel: "repo p' = Some r"
  shows "\<exists>cc pc err.
           validateRepoCAPIVersion K L
             (p\<lparr>configClient := Some cc, providerConfig := Some pc, repo := Some r,
                options := \<lparr>TargetNamespace = Namespace (provider p),
                             SkipTemplateProcess = False,
                             opt_Version = (case Version (Spec (provider p)) of
                                              None \<Rightarrow> DefaultVersion r | Some v \<Rightarrow> v)\<rparr>\<rparr>)
             (provider p) = Return (err, p')
           \<and> e = wrapPhaseError err (CAPIVersionIncompatibilityReason K)
                   (PreflightCheckCondition K)"
proof (cases "secretReader K W (provider p)")
  case (Inl err)
  with l have "p' = p" by (simp add: load_def)
  with fresh sel show ?thesis by simp
next
  case reader: (Inr reader)
  show ?thesis
  proof (cases "configclient_New W reader")
    case (Inl err)
    with l reader have "p' = p\<lparr>configClient := None\<rparr>" by (simp add: load_def)
    with fresh sel show ?thesis by simp
  next
    case cc: (Inr cc)
    show ?thesis
    proof (cases "Providers_Get W cc (Name (provider p)) (ClusterctlProviderType K (provider p))")
      case (Inl err)
      with l reader cc have "p' = p\<lparr>configClient := Some cc, providerConfig := None\<rparr>"
        by (simp add: load_def Let_def)
      with fresh sel show ?thesis by simp
    next
      case pc: (Inr pc)
      note run = l [unfolded load_after_config [OF reader cc pc]]
      show ?thesis
      proof (cases "if (case FetchConfig (Spec (provider p)) of None \<Rightarrow> None | Some fc \<Rightarrow> ConfigMap fc)
               \<noteq> None
            then map_sum id (asRepository L)
                   (configmapRepository K L W
                      (case FetchConfig (Spec (provider p)) of
                         None \<Rightarrow> None | Some fc \<Rightarrow> ConfigMap fc))
            else NewGitHubRepository W pc cc")
        case (Inl err)
        with run
        have "p' = p\<lparr>configClient := Some cc, providerConfig := Some pc, repo := None\<rparr>"
          by simp
        with sel show ?thesis by simp
      next
        case (Inr r')
        let ?p5 = "p\<lparr>configClient := Some cc, providerConfig := Some pc, repo := Some r',
                options := \<lparr>TargetNamespace = Namespace (provider p),
                             SkipTemplateProcess = False,
                             opt_Version = (case Version (Spec (provider p)) of
                                              None \<Rightarrow> DefaultVersion r' | Some v \<Rightarrow> v)\<rparr>\<rparr>"
        from run Inr
        have "(case validateRepoCAPIVersion K L ?p5 (provider p) of
                      Panic \<Rightarrow> Panic
                    | Return (err, p6) \<Rightarrow>
                        Return (wrapPhaseError err (CAPIVersionIncompatibilityReason K)
                                  (PreflightCheckCondition K), p6)) = Return (e, p')"
          by simp
        then obtain err where
          v: "validateRepoCAPIVersion K L ?p5 (provider p) = Return (err, p')"
          and e: "e = wrapPhaseError err (CAPIVersionIncompatibilityReason K)
                        (PreflightCheckCondition K)"
          by (auto split: outcome.splits)
        from validateRepoCAPIVersion_frame [OF v] sel have "r' = r" by simp
        with v e show ?thesis by blast
      qed
    qed
  qed
qed

lemma load_returns: "\<exists>e p'. load K L W p = Return (e, p')"
proof (cases "secretReader K W (provider p)")
  case (Inl err)
  then show ?thesis by (simp add: load_def)
next
  case reader: (Inr reader)
  show ?thesis
  proof (cases "configclient_New W reader")
    case (Inl err)
    with reader show ?thesis by (simp add: load_def)
  next
    case cc: (Inr cc)
    show ?thesis
    proof (cases "Providers_Get W cc (Name (provider p)) (ClusterctlProviderType K (provider p))")
      case (Inl err)
      with reader cc show ?thesis by (simp add: load_def Let_def)
    next
      case pc: (Inr pc)
      show ?thesis
      proof (cases "if (case FetchConfig (Spec (provider p)) of None \<Rightarrow> None | Some fc \<Rightarrow> ConfigMap fc)
               \<noteq> None
            then map_sum id (asRepository L)
                   (configmapRepository K L W
                      (case FetchConfig (Spec (provider p)) of
                         None \<Rightarrow> None | Some fc \<Rightarrow> ConfigMap fc))
            else NewGitHubRepository W pc cc")
        case (Inl err)
        then show ?thesis by (simp add: load_after_config [OF reader cc pc])
      next
        case (Inr r)
        let ?p5 = "p\<lparr>configClient := Some cc, providerConfig := Some pc, repo := Some r,
                options := \<lparr>TargetNamespace = Namespace (provider p),
                             SkipTemplateProcess = False,
                             opt_Version = (case Version (Spec (provider p)) of
                                              None \<Rightarrow> DefaultVersion r | Some v \<Rightarrow> v)\<rparr>\<rparr>"
        have "repo ?p5 = Some r" by simp
        from validateRepoCAPIVersion_returns [OF this, of K L "provider p"]
        obtain err p6 where "validateRepoCAPIVersion K L ?p5 (provider p) = Return (err, p6)"
          by blast
        with Inr show ?thesis by (simp add: load_after_config [OF reader cc pc])
      qed
    qed
  qed
qed

section \<open>The target version\<close>

text \<open>
  C2. \<open>load\<close> always returns. When it has selected a repository (a fresh reconciler has
  none, so this is when \<open>load\<close> gets to compute the version), the target version in
  \<open>options\<close> is the provider's pinned version if one is set and the repository's
  \<open>DefaultVersion()\<close> otherwise, and the metadata file is read at that version. The
  read of \<open>fetch\<close> that follows is at the same version, and the later phases neither
  read the repository nor change the options.
\<close>

theorem load_target_version:
  "\<exists>e p'. load K L W p = Return (e, p')
     \<and> (\<forall>r. repo p = None \<and> repo p' = Some r \<longrightarrow>
           opt_Version (options p')
             = (case Version (Spec (provider p)) of Some v \<Rightarrow> v | None \<Rightarrow> DefaultVersion r)
           \<and> calls p' = calls p @ [CallGetFile (opt_Version (options p')) metadataFile]
           \<and> (\<forall>W2 e2 p2. fetch K W2 p' = Return (e2, p2) \<longrightarrow>
                 calls p2 = calls p' @ [CallGetFile (opt_Version (options p')) (ComponentsPath r)]
                 \<and> options p2 = options p' \<and> repo p2 = repo p'))
     \<and> (\<forall>W2 q e2 q'.
           preInstall K L W2 q = Return (e2, q') \<or> install K W2 q = Return (e2, q')
           \<or> delete K W2 q = Return (e2, q')
           \<longrightarrow> options q' = options q \<and> repo q' = repo q
               \<and> filter isGetFile (calls q') = filter isGetFile (calls q))"
proof -
  from load_returns [of K L W p] obtain e p' where l: "load K L W p = Return (e, p')"
    by blast
  have target: "\<forall>r. repo p = None \<and> repo p' = Some r \<longrightarrow>
           opt_Version (options p')
             = (case Version (Spec (provider p)) of Some v \<Rightarrow> v | None \<Rightarrow> DefaultVersion r)
           \<and> calls p' = calls p @ [CallGetFile (opt_Version (options p')) metadataFile]
           \<and> (\<forall>W2 e2 p2. fetch K W2 p' = Return (e2, p2) \<longrightarrow>
                 calls p2 = calls p' @ [CallGetFile (opt_Version (options p')) (ComponentsPath r)]
                 \<and> options p2 = options p' \<and> repo p2 = repo p')"
  proof (intro allI impI, elim conjE)
    fix r
    assume fresh: "repo p = None" and sel: "repo p' = Some r"
    from load_reached [OF l fresh sel] obtain cc pc err where
      v: "validateRepoCAPIVersion K L
             (p\<lparr>configClient := Some cc, providerConfig := Some pc, repo := Some r,
                options := \<lparr>TargetNamespace = Namespace (provider p),
                             SkipTemplateProcess = False,
                             opt_Version = (case Version (Spec (provider p)) of
                                              None \<Rightarrow> DefaultVersion r | Some v \<Rightarrow> v)\<rparr>\<rparr>)
             (provider p) = Return (err, p')"
      by blast
    note f = validateRepoCAPIVersion_frame [OF v]
    have ver: "opt_Version (options p')
             = (case Version (Spec (provider p)) of Some v \<Rightarrow> v | None \<Rightarrow> DefaultVersion r)"
      using f by (simp split: option.splits)
    have read: "calls p' = calls p @ [CallGetFile (opt_Version (options p')) metadataFile]"
      using f by simp
    have next_read: "\<forall>W2 e2 p2. fetch K W2 p' = Return (e2, p2) \<longrightarrow>
                 calls p2 = calls p' @ [CallGetFile (opt_Version (options p')) (ComponentsPath r)]
                 \<and> options p2 = options p' \<and> repo p2 = repo p'"
      using sel by (auto dest: fetch_frame)
    from ver read next_read
    show "opt_Version (options p')
             = (case Version (Spec (provider p)) of Some v \<Rightarrow> v | None \<Rightarrow> DefaultVersion r)
           \<and> calls p' = calls p @ [CallGetFile (opt_Version (options p')) metadataFile]
           \<and> (\<forall>W2 e2 p2. fetch K W2 p' = Return (e2, p2) \<longrightarrow>
                 calls p2 = calls p' @ [CallGetFile (opt_Version (options p')) (ComponentsPath r)]
                 \<and> options p2 = options p' \<and> repo p2 = repo p')"
      by blast
  qed
  have later: "\<forall>W2 q e2 q'.
           preInstall K L W2 q = Return (e2, q') \<or> install K W2 q = Return (e2, q')
           \<or> delete K W2 q = Return (e2, q')
           \<longrightarrow> options q' = options q \<and> repo q' = repo q
               \<and> filter isGetFile (calls q') = filter isGetFile (calls q)"
    by (auto dest: preInstall_frame install_frame delete_frame)
  from l target later show ?thesis by blast
qed

text \<open>
  On the sample: a provider with no pinned version is loaded at the registry's default
  version \<open>v1.0.0\<close>, one pinned to \<open>v0.9.0\<close> at \<open>v0.9.0\<close>.
\<close>

lemma sample_load_selects:
  assumes plain: "SecretName (Spec prov) = None" "FetchConfig (Spec prov) = None"
      and l: "load K0 L0 W0 (newReconcilePhases prov) = Return (e, p')"
  shows "repo p' = Some gitHubRepository"
proof -
  let ?p = "newReconcilePhases prov :: (unit, unit) phaseReconciler"
  have prov: "provider ?p = prov" by (simp add: newReconcilePhases_def)
  have reader: "secretReader K0 W0 (provider ?p) = Inr ()"
    using plain by (simp add: secretReader_def prov W0_def)
  have cc: "configclient_New W0 () = Inr ()" by (simp add: W0_def)
  have pc: "Providers_Get W0 () (Name (provider ?p)) (ClusterctlProviderType K0 (provider ?p)) = Inr ()"
    by (simp add: W0_def)
  have gh: "NewGitHubRepository W0 () () = Inr gitHubRepository" by (simp add: W0_def)
  from l [unfolded load_after_config [OF reader cc pc, of L0]] plain gh
  obtain err where "validateRepoCAPIVersion K0 L0
         (?p\<lparr>configClient := Some (), providerConfig := Some (), repo := Some gitHubRepository,
             options := \<lparr>TargetNamespace = Namespace (provider ?p), SkipTemplateProcess = False,
                          opt_Version = (case Version (Spec (provider ?p)) of
                                           None \<Rightarrow> DefaultVersion gitHubRepository
                                         | Some v \<Rightarrow> v)\<rparr>\<rparr>)
         (provider ?p) = Return (err, p')"
    by (auto simp: prov split: outcome.splits)
  from validateRepoCAPIVersion_frame [OF this] show ?thesis by simp
qed

theorem load_target_version_witness:
  "(\<exists>e p'. load K0 L0 W0 (newReconcilePhases provider0) = Return (e, p')
       \<and> repo p' = Some gitHubRepository \<and> DefaultVersion gitHubRepository = ''v1.0.0''
       \<and> opt_Version (options p') = ''v1.0.0''
       \<and> calls p' = [CallGetFile ''v1.0.0'' ''metadata.yaml''])
   \<and> (\<exists>e p'. load K0 L0 W0 (newReconcilePhases (pinned ''v0.9.0'')) = Return (e, p')
       \<and> repo p' = Some gitHubRepository
       \<and> opt_Version (options p') = ''v0.9.0''
       \<and> calls p' = [CallGetFile ''v0.9.0'' ''metadata.yaml''])"
proof -
  have fresh: "repo (newReconcilePhases prov) = None" "calls (newReconcilePhases prov) = []"
       "provider (newReconcilePhases prov) = prov" for prov
    by (simp_all add: newReconcilePhases_def)
  have d: "DefaultVersion gitHubRepository = ''v1.0.0''" by (simp add: gitHubRepository_def)
  have s0: "SecretName (Spec provider0) = None" "FetchConfig (Spec provider0) = None"
           "Version (Spec provider0) = None"
    by (simp_all add: provider0_def)
  have s1: "SecretName (Spec (pinned v)) = None" "FetchConfig (Spec (pinned v)) = None"
           "Version (Spec (pinned v)) = Some v" for v
    by (simp_all add: pinned_def provider0_def)
  from load_target_version [of K0 L0 W0 "newReconcilePhases provider0"]
  obtain e p' where
    l: "load K0 L0 W0 (newReconcilePhases provider0) = Return (e, p')"
    and t: "\<forall>r. repo (newReconcilePhases provider0 :: (unit, unit) phaseReconciler) = None
                 \<and> repo p' = Some r \<longrightarrow>
           opt_Version (options p')
             = (case Version (Spec (provider (newReconcilePhases provider0 :: (unit, unit) phaseReconciler))) of
                  Some v \<Rightarrow> v | None \<Rightarrow> DefaultVersion r)
           \<and> calls p' = calls (newReconcilePhases provider0 :: (unit, unit) phaseReconciler)
                          @ [CallGetFile (opt_Version (options p')) metadataFile]"
    by blast
  from sample_load_selects [OF s0(1,2) l] have r: "repo p' = Some gitHubRepository" .
  from t r have a: "opt_Version (options p') = ''v1.0.0''
      \<and> calls p' = [CallGetFile ''v1.0.0'' ''metadata.yaml'']"
    by (simp add: fresh s0 d metadataFile_def)
  from load_target_version [of K0 L0 W0 "newReconcilePhases (pinned ''v0.9.0'')"]
  obtain e2 p2 where
    l2: "load K0 L0 W0 (newReconcilePhases (pinned ''v0.9.0'')) = Return (e2, p2)"
    and t2: "\<forall>r. repo (newReconcilePhases (pinned ''v0.9.0'') :: (unit, unit) phaseReconciler) = None
                 \<and> repo p2 = Some r \<longrightarrow>
           opt_Version (options p2)
             = (case Version (Spec (provider (newReconcilePhases (pinned ''v0.9.0'') :: (unit, unit) phaseReconciler))) of
                  Some v \<Rightarrow> v | None \<Rightarrow> DefaultVersion r)
           \<and> calls p2 = calls (newReconcilePhases (pinned ''v0.9.0'') :: (unit, unit) phaseReconciler)
                          @ [CallGetFile (opt_Version (options p2)) metadataFile]"
    by blast
  from sample_load_selects [OF s1(1,2) l2] have r2: "repo p2 = Some gitHubRepository" .
  from t2 r2 have b: "opt_Version (options p2) = ''v0.9.0''
      \<and> calls p2 = [CallGetFile ''v0.9.0'' ''metadata.yaml'']"
    by (simp add: fresh s1 metadataFile_def)
  from l r d a l2 r2 b show ?thesis by blast
qed

section \<open>The contract of the release series\<close>

text \<open>
  C3. When the metadata at the target version decodes and a release series matches the
  version: for a contract other than \<open>v1alpha4\<close> and \<open>v1beta1\<close>,
  \<open>validateRepoCAPIVersion\<close> fails with the error whose message is the format
  \<open>capiVersionIncompatibilityMessage\<close> filled with the host's contract version, the
  contract of the series and the provider's name, so the message contains all three;
  for one of the two contracts it succeeds and stores the contract in the reconciler.
  No later phase changes the stored contract, and \<open>install\<close> copies it to the
  provider's status.
\<close>

theorem validateRepoCAPIVersion_contract:
  assumes "repo s = Some r"
      and "GetFile r (opt_Version (options s)) metadataFile = Inr file"
      and "DecodeInto L file = Inr md"
      and "ParseSemantic L (opt_Version (options s)) = Inr v"
      and "GetReleaseSeriesForVersion L md v = Some rs"
      and "capiVersionIncompatibilityMessage K = (t0, t1, t2, t3)"
  shows "(rs_Contract rs \<noteq> ''v1alpha4'' \<and> rs_Contract rs \<noteq> ''v1beta1'' \<longrightarrow>
           (\<exists>msg. validateRepoCAPIVersion K L s prov
                    = Return (Some (ErrorString msg),
                        s\<lparr>calls := calls s @ [CallGetFile (opt_Version (options s)) metadataFile]\<rparr>)
              \<and> msg = t0 @ GroupVersion_Version L @ t1 @ rs_Contract rs @ t2 @ Name prov @ t3
              \<and> sublist (GroupVersion_Version L) msg
              \<and> sublist (rs_Contract rs) msg
              \<and> sublist (Name prov) msg))
       \<and> (rs_Contract rs = ''v1alpha4'' \<or> rs_Contract rs = ''v1beta1'' \<longrightarrow>
             validateRepoCAPIVersion K L s prov
               = Return (None,
                   s\<lparr>calls := calls s @ [CallGetFile (opt_Version (options s)) metadataFile],
                     contract := rs_Contract rs\<rparr>))
       \<and> (\<forall>W q e q'.
             fetch K W q = Return (e, q') \<or> preInstall K L W q = Return (e, q')
             \<or> install K W q = Return (e, q') \<or> delete K W q = Return (e, q')
             \<longrightarrow> contract q' = contract q)
       \<and> (\<forall>W q q'. install K W q = Return (None, q')
             \<longrightarrow> Contract (Status (provider q')) = Some (contract q))"
proof -
  let ?s1 = "s\<lparr>calls := calls s @ [CallGetFile (opt_Version (options s)) metadataFile]\<rparr>"
  let ?msg = "t0 @ GroupVersion_Version L @ t1 @ rs_Contract rs @ t2 @ Name prov @ t3"
  have run: "validateRepoCAPIVersion K L s prov =
     (if rs_Contract rs \<noteq> ''v1alpha4'' \<and> rs_Contract rs \<noteq> ''v1beta1''
      then Return (Some (ErrorString ?msg), ?s1)
      else Return (None, ?s1\<lparr>contract := rs_Contract rs\<rparr>))"
    using assms by (simp add: validateRepoCAPIVersion_def Let_def Errorf3_def)
  have n1: "sublist (GroupVersion_Version L) ?msg"
    by (rule sublist_appendI)
  have n2: "sublist (rs_Contract rs) ?msg"
    using sublist_appendI [of "rs_Contract rs" "t0 @ GroupVersion_Version L @ t1"
                              "t2 @ Name prov @ t3"] by simp
  have n3: "sublist (Name prov) ?msg"
    using sublist_appendI [of "Name prov" "t0 @ GroupVersion_Version L @ t1 @ rs_Contract rs @ t2"
                              t3] by simp
  have rejected: "rs_Contract rs \<noteq> ''v1alpha4'' \<and> rs_Contract rs \<noteq> ''v1beta1'' \<longrightarrow>
           (\<exists>msg. validateRepoCAPIVersion K L s prov = Return (Some (ErrorString msg), ?s1)
              \<and> msg = ?msg
              \<and> sublist (GroupVersion_Version L) msg
              \<and> sublist (rs_Contract rs) msg
              \<and> sublist (Name prov) msg)"
    using run n1 n2 n3 by simp
  have accepted: "rs_Contract rs = ''v1alpha4'' \<or> rs_Contract rs = ''v1beta1'' \<longrightarrow>
             validateRepoCAPIVersion K L s prov = Return (None, ?s1\<lparr>contract := rs_Contract rs\<rparr>)"
    using run by auto
  have kept: "\<forall>W q e q'.
             fetch K W q = Return (e, q') \<or> preInstall K L W q = Return (e, q')
             \<or> install K W q = Return (e, q') \<or> delete K W q = Return (e, q')
             \<longrightarrow> contract q' = contract q"
    by (auto dest: fetch_frame_contract preInstall_frame install_frame delete_frame)
  have persisted: "\<forall>W q q'. install K W q = Return (None, q')
             \<longrightarrow> Contract (Status (provider q')) = Some (contract q)"
    by (auto dest: install_persists_contract)
  from rejected accepted kept persisted show ?thesis by blast
qed

text \<open>
  On the sample: the series of \<open>v1.0.0\<close> declares \<open>v1alpha3\<close>, then \<open>v1beta1\<close>.
\<close>

lemma selected_facts:
  "repo (selected doc) = Some (registryWith doc)"
  "opt_Version (options (selected doc)) = ''v1.0.0''"
  "calls (selected doc) = []"
  "GetFile (registryWith doc) ''v1.0.0'' metadataFile = Inr doc"
  by (simp_all add: selected_def registryWith_def newReconcilePhases_def metadataFile_def)

lemma decode_samples:
  "DecodeInto L0 ''releaseSeries: [{major: 1, minor: 0, contract: v1beta1}]''
     = Inr \<lparr>md_ReleaseSeries = [\<lparr>rs_Major = 1, rs_Minor = 0, rs_Contract = ''v1beta1''\<rparr>]\<rparr>"
  "DecodeInto L0 ''releaseSeries: [{major: 1, minor: 0, contract: v1alpha3}]''
     = Inr \<lparr>md_ReleaseSeries = [\<lparr>rs_Major = 1, rs_Minor = 0, rs_Contract = ''v1alpha3''\<rparr>]\<rparr>"
  by (simp_all add: L0_def sampleDecodeInto_def)

lemma series_sample:
  "GetReleaseSeriesForVersion L0
     \<lparr>md_ReleaseSeries = [\<lparr>rs_Major = 1, rs_Minor = 0, rs_Contract = c\<rparr>]\<rparr> (release 1 0 0)
     = Some \<lparr>rs_Major = 1, rs_Minor = 0, rs_Contract = c\<rparr>"
  by (simp add: L0_def sampleGetReleaseSeriesForVersion_def release_def)

lemma K0_message:
  "capiVersionIncompatibilityMessage K0
     = (''only compatible with '', '' providers, detected '', '' for provider '', ''.'')"
  by (simp add: K0_def)

theorem validateRepoCAPIVersion_contract_witness:
  "validateRepoCAPIVersion K0 L0
      (selected ''releaseSeries: [{major: 1, minor: 0, contract: v1alpha3}]'') provider0
     = Return (Some (ErrorString
                 ''only compatible with v1beta1 providers, detected v1alpha3 for provider aws.''),
         (selected ''releaseSeries: [{major: 1, minor: 0, contract: v1alpha3}]'')
           \<lparr>calls := [CallGetFile ''v1.0.0'' ''metadata.yaml'']\<rparr>)
   \<and> validateRepoCAPIVersion K0 L0
      (selected ''releaseSeries: [{major: 1, minor: 0, contract: v1beta1}]'') provider0
     = Return (None,
         (selected ''releaseSeries: [{major: 1, minor: 0, contract: v1beta1}]'')
           \<lparr>calls := [CallGetFile ''v1.0.0'' ''metadata.yaml''], contract := ''v1beta1''\<rparr>)"
proof -
  let ?a = "''releaseSeries: [{major: 1, minor: 0, contract: v1alpha3}]''"
  let ?b = "''releaseSeries: [{major: 1, minor: 0, contract: v1beta1}]''"
  have g: "GetFile (registryWith doc) (opt_Version (options (selected doc))) metadataFile = Inr doc"
    for doc by (simp add: selected_facts)
  have p: "ParseSemantic L0 (opt_Version (options (selected doc))) = Inr (release 1 0 0)" for doc
    by (simp add: selected_facts parse_v100)
  have h: "GroupVersion_Version L0 = ''v1beta1''" "Name provider0 = ''aws''"
    by (simp_all add: L0_def provider0_def)
  from validateRepoCAPIVersion_contract
         [OF selected_facts(1) g decode_samples(2) p series_sample K0_message, of provider0]
  have a: "validateRepoCAPIVersion K0 L0 (selected ?a) provider0
     = Return (Some (ErrorString
                 ''only compatible with v1beta1 providers, detected v1alpha3 for provider aws.''),
         (selected ?a)\<lparr>calls := [CallGetFile ''v1.0.0'' ''metadata.yaml'']\<rparr>)"
    by (simp add: h selected_facts metadataFile_def) blast
  from validateRepoCAPIVersion_contract
         [OF selected_facts(1) g decode_samples(1) p series_sample K0_message, of provider0]
  have b: "validateRepoCAPIVersion K0 L0 (selected ?b) provider0
     = Return (None,
         (selected ?b)\<lparr>calls := [CallGetFile ''v1.0.0'' ''metadata.yaml''],
                        contract := ''v1beta1''\<rparr>)"
    by (simp add: h selected_facts metadataFile_def) blast
  from a b show ?thesis by blast
qed

end
